theory Spec2Isabelle
  imports Main "HOL-Library.Word"
begin

unbundle bit_operations_syntax

section \<open>Data model\<close>

type_synonym u8 = "8 word"
type_synonym u16 = "16 word"
type_synonym u32 = "32 word"
type_synonym u64 = "64 word"

text \<open>
  \<open>conn_tuple_t\<close>: the flow identifier filled by \<open>sock.h\<close> and used as map key by
  \<open>kafka.h\<close>. Each 128-bit address is a pair of 64-bit halves (\<open>saddr_h\<close>, \<open>saddr_l\<close>);
  the code addresses every half as two 32-bit words, so the halves are 64 bits wide.
\<close>

record conn_tuple_t =
  saddr_h :: u64
  saddr_l :: u64
  daddr_h :: u64
  daddr_l :: u64
  sport :: u16
  dport :: u16
  netns :: u32
  pid :: u32
  metadata :: u32

text \<open>
  \<open>struct in6_addr\<close>: the four 32-bit words \<open>s6_addr32[0..3]\<close>, in network order.
\<close>

record in6_addr =
  s6_addr32_0 :: u32
  s6_addr32_1 :: u32
  s6_addr32_2 :: u32
  s6_addr32_3 :: u32

text \<open>
  The macros and helpers that \<open>sock.h\<close> and \<open>kafka.h\<close> use but that are declared in
  other headers (\<open>tracer.h\<close>, \<open>kafka-types.h\<close>, \<open>ip.h\<close>, \<open>ipv6.h\<close>, the kernel's TCP
  header) are parameters of the model, collected in one record. \<open>ipv6_enabled\<close> is the
  value that \<open>LOAD_CONSTANT("ipv6_enabled", val)\<close> stores into \<open>val\<close>. \<open>read_in6_addr\<close>
  receives the two halves as they are before the call and the address read from the
  route descriptor, and returns the two halves as they are after the call.
  \<open>KAFKA_BATCH_SIZE\<close> and the fill count \<open>pos\<close> are mathematical integers: \<open>pos\<close> is
  incremented only below \<open>KAFKA_BATCH_SIZE\<close>, so no C integer type that holds
  \<open>KAFKA_BATCH_SIZE\<close> wraps there.
\<close>

record defs =
  CONN_V4 :: u32
  CONN_V6 :: u32
  CONN_TYPE_TCP :: u32
  TCPHDR_FIN :: u8
  TCPHDR_RST :: u8
  ENABLED :: u64
  ipv6_enabled :: u64
  KAFKA_BATCH_SIZE :: int
  KAFKA_BATCH_PAGES :: u64
  is_ipv4_mapped_ipv6 :: "u64 \<Rightarrow> u64 \<Rightarrow> u64 \<Rightarrow> u64 \<Rightarrow> bool"
  read_in6_addr :: "u64 \<Rightarrow> u64 \<Rightarrow> in6_addr \<Rightarrow> u64 \<times> u64"

section \<open>kafka.h\<close>

text \<open>
  \<open>kafka_transaction_t\<close> with the fields that \<open>kafka.h\<close> reads or writes.
\<close>

record kafka_transaction_t =
  tup :: conn_tuple_t
  tcp_seq :: u32
  request_fragment :: "u8 list"
  topic_name :: "u8 list"

text \<open>
  \<open>kafka_batch_state_t\<close> holds the two cursors of one CPU; \<open>kafka_batch_t\<close> is one page.
  Both structs have a field \<open>idx\<close>; the page's one is \<open>batch_idx\<close> here. \<open>txs\<close> is the
  array of \<open>KAFKA_BATCH_SIZE\<close> records.
\<close>

record kafka_batch_state_t =
  idx :: u64
  idx_to_flush :: u64

record kafka_batch_key_t =
  cpu :: u32
  page_num :: u64

record kafka_batch_t =
  batch_idx :: u64
  pos :: int
  txs :: "kafka_transaction_t list"

record skb_info_t =
  data_off :: u32
  skb_tcp_seq :: u32
  tcp_flags :: u8

record sk_buff =
  len :: u32

text \<open>
  The BPF maps and the perf-event channel, as the program state. A lookup that returns
  \<open>NULL\<close> is \<open>None\<close>. \<open>kafka_batch_state\<close> is looked up at key zero and has one slot per
  CPU, so it is keyed by the CPU the invocation runs on. \<open>kafka_batch_events\<close> lists the
  records delivered to the export channel, oldest first, each with the CPU it was
  emitted for. Maps are not bounded: an update never fails for lack of room.
\<close>

record kafka_maps =
  kafka_batch_state :: "u32 \<rightharpoonup> kafka_batch_state_t"
  kafka_batches :: "kafka_batch_key_t \<rightharpoonup> kafka_batch_t"
  kafka_batch_events :: "(u32 \<times> kafka_batch_t) list"
  kafka_in_flight :: "conn_tuple_t \<rightharpoonup> kafka_transaction_t"
  kafka_last_tcp_seq_per_connection :: "conn_tuple_t \<rightharpoonup> u32"

text \<open>
  \<open>kafka_get_batch_key\<close>; \<open>smp\<close> is the value of \<open>bpf_get_smp_processor_id()\<close>.
\<close>

definition kafka_get_batch_key :: "defs \<Rightarrow> u32 \<Rightarrow> u64 \<Rightarrow> kafka_batch_key_t" where
  "kafka_get_batch_key c smp batch_idx' =
     \<lparr>cpu = smp, page_num = batch_idx' mod KAFKA_BATCH_PAGES c\<rparr>"

text \<open>
  \<open>bpf_perf_event_output\<close>: \<open>ok\<close> tells whether the kernel accepted the record; the
  status it returns is discarded by the caller.
\<close>

definition bpf_perf_event_output ::
  "bool \<Rightarrow> u32 \<Rightarrow> kafka_batch_t \<Rightarrow> (u32 \<times> kafka_batch_t) list \<Rightarrow> (u32 \<times> kafka_batch_t) list" where
  "bpf_perf_event_output ok smp batch evs = (if ok then evs @ [(smp, batch)] else evs)"

definition kafka_flush_batch :: "defs \<Rightarrow> u32 \<Rightarrow> bool \<Rightarrow> kafka_maps \<Rightarrow> kafka_maps" where
  "kafka_flush_batch c smp ok s =
     (case kafka_batch_state s smp of
        None \<Rightarrow> s
      | Some batch_state \<Rightarrow>
          if idx_to_flush batch_state = idx batch_state then s
          else
            let key = kafka_get_batch_key c smp (idx_to_flush batch_state) in
            (case kafka_batches s key of
               None \<Rightarrow> s
             | Some batch \<Rightarrow>
                 s\<lparr>kafka_batch_events :=
                     bpf_perf_event_output ok (cpu key) batch (kafka_batch_events s),
                   kafka_batches := (kafka_batches s)(key \<mapsto> batch\<lparr>pos := 0\<rparr>),
                   kafka_batch_state :=
                     (kafka_batch_state s)
                       (smp \<mapsto> batch_state\<lparr>idx_to_flush := idx_to_flush batch_state + 1\<rparr>)\<rparr>))"

definition kafka_batch_full :: "defs \<Rightarrow> kafka_batch_t \<Rightarrow> bool" where
  "kafka_batch_full c batch \<longleftrightarrow> pos batch = KAFKA_BATCH_SIZE c"

definition kafka_enqueue ::
  "defs \<Rightarrow> u32 \<Rightarrow> kafka_transaction_t \<Rightarrow> kafka_maps \<Rightarrow> kafka_maps" where
  "kafka_enqueue c smp kafka_transaction s =
     (case kafka_batch_state s smp of
        None \<Rightarrow> s
      | Some batch_state \<Rightarrow>
          let key = kafka_get_batch_key c smp (idx batch_state) in
          (case kafka_batches s key of
             None \<Rightarrow> s
           | Some batch \<Rightarrow>
               if kafka_batch_full c batch then s
               else if pos batch < 0 \<or> pos batch \<ge> KAFKA_BATCH_SIZE c then s
               else
                 let batch' = batch\<lparr>txs := (txs batch)[nat (pos batch) := kafka_transaction],
                                    pos := pos batch + 1,
                                    batch_idx := idx batch_state\<rparr>;
                     s' = s\<lparr>kafka_batches := (kafka_batches s)(key \<mapsto> batch')\<rparr>
                 in if kafka_batch_full c batch'
                    then s'\<lparr>kafka_batch_state :=
                              (kafka_batch_state s)
                                (smp \<mapsto> batch_state\<lparr>idx := idx batch_state + 1\<rparr>)\<rparr>
                    else s'))"

text \<open>
  Modelled from the spec: the macro \<open>bpf_map_update_with_telemetry\<close> is declared outside
  the files at hand. The spec has the insert of \<open>kafka_fetch_state\<close>, which passes
  \<open>BPF_NOEXIST\<close>, store the value only when the key has no entry and be a no-op
  otherwise; the update of \<open>kafka_allow_packet\<close>, which passes \<open>BPF_ANY\<close>, overwrites.
  An update can fail (the spec names a map that is full); \<open>stored\<close> tells whether the
  \<open>BPF_ANY\<close> update stored the value, and a failed update leaves the map as it was.
  In \<open>kafka_fetch_state\<close> the lookup that follows the insert is the result.
\<close>

definition bpf_map_update_any :: "bool \<Rightarrow> ('k \<rightharpoonup> 'v) \<Rightarrow> 'k \<Rightarrow> 'v \<Rightarrow> ('k \<rightharpoonup> 'v)" where
  "bpf_map_update_any stored m k v = (if stored then m(k \<mapsto> v) else m)"



text \<open>
  \<open>kafka_allow_packet\<close> returns its verdict and the maps as it leaves them. A nonzero
  value of \<open>tcp_flags & (TCPHDR_FIN|TCPHDR_RST)\<close> converts to \<open>true\<close>. The status of
  the update of the sequence map is discarded by the function: it returns \<open>true\<close>
  whether or not the sequence was stored.
\<close>

definition kafka_allow_packet ::
  "defs \<Rightarrow> bool \<Rightarrow> kafka_transaction_t \<Rightarrow> sk_buff \<Rightarrow> skb_info_t \<Rightarrow> kafka_maps \<Rightarrow>
     bool \<times> kafka_maps" where
  "kafka_allow_packet c stored kafka skb skb_info s =
     (if metadata (tup kafka) AND CONN_TYPE_TCP c = 0 then (False, s)
      else
        let empty_payload = (data_off skb_info = len skb) in
        if empty_payload
        then (tcp_flags skb_info AND (TCPHDR_FIN c OR TCPHDR_RST c) \<noteq> 0, s)
        else
          let last_tcp_seq = kafka_last_tcp_seq_per_connection s (tup kafka) in
          if last_tcp_seq \<noteq> None \<and> the last_tcp_seq = skb_tcp_seq skb_info then (False, s)
          else (True,
                s\<lparr>kafka_last_tcp_seq_per_connection :=
                    bpf_map_update_any stored (kafka_last_tcp_seq_per_connection s) (tup kafka)
                      (skb_tcp_seq skb_info)\<rparr>))"

section \<open>sock.h\<close>

text \<open>
  The fields of \<open>struct sock\<close> (and of the \<open>inet_sock\<close> it is embedded in) that the
  extractor reads; each field holds the value that \<open>BPF_CORE_READ\<close> delivers.
  \<open>sk_net_ns_inum\<close> is \<open>sk_net.net->ns.inum\<close>.
\<close>

record sock =
  sk_family :: u16
  sk_net_ns_inum :: u32
  sk_num :: u16
  sk_dport :: u16
  sk_rcv_saddr :: u32
  sk_daddr :: u32
  sk_v6_rcv_saddr :: in6_addr
  sk_v6_daddr :: in6_addr
  inet_saddr :: u32
  inet_sport :: u16

text \<open>
  The route descriptors. The C fields \<open>saddr\<close> and \<open>daddr\<close> exist in both structs; here
  they carry the struct's prefix.
\<close>

record flowi4 =
  fl4_saddr :: u32
  fl4_daddr :: u32
  fl4_sport :: u16
  fl4_dport :: u16

record flowi6 =
  fl6_saddr :: in6_addr
  fl6_daddr :: in6_addr
  fl6_sport :: u16
  fl6_dport :: u16

text \<open>\<open>__AF_INET\<close> and \<open>__AF_INET6\<close>.\<close>

definition AF_INET :: u16 where
  "AF_INET = 2"

definition AF_INET6 :: u16 where
  "AF_INET6 = 10"

definition is_ipv6_enabled :: "defs \<Rightarrow> bool" where
  "is_ipv6_enabled c \<longleftrightarrow> ipv6_enabled c = ENABLED c"

definition get_netns_from_sock :: "sock \<Rightarrow> u32" where
  "get_netns_from_sock sk = sk_net_ns_inum sk"

text \<open>
  Modelled from the spec: the macros \<open>bpf_ntohs\<close> and \<open>ntohs\<close> are declared outside the
  files at hand. The spec has ports converted from network to host byte order; on a
  little-endian target that swaps the two bytes of the 16-bit value.
\<close>

definition bpf_ntohs :: "u16 \<Rightarrow> u16" where
  "bpf_ntohs x = push_bit 8 x OR drop_bit 8 x"

definition read_sport :: "sock \<Rightarrow> u16" where
  "read_sport sk =
     (let sport' = sk_num sk in
      if sport' = 0 then bpf_ntohs (inet_sport sk) else sport')"

definition check_family :: "sock \<Rightarrow> u16 \<Rightarrow> bool" where
  "check_family sk expected_family \<longleftrightarrow> sk_family sk = expected_family"

text \<open>
  The stores through \<open>u32\<close> pointers into a 64-bit half, on a little-endian target (the
  target on which \<open>saddr_l >> 32\<close> is the last word of the address, as the code takes it
  to be): \<open>*(u32* )(&x) = v\<close> replaces bits 0 to 31 of \<open>x\<close>, and
  \<open>*(((u32* )(&x))+1) = v\<close> replaces bits 32 to 63.
\<close>

definition store_u32_0 :: "u64 \<Rightarrow> u32 \<Rightarrow> u64" where
  "store_u32_0 x v = (x AND 0xFFFFFFFF00000000) OR ucast v"

definition store_u32_1 :: "u64 \<Rightarrow> u32 \<Rightarrow> u64" where
  "store_u32_1 x v = (x AND 0xFFFFFFFF) OR push_bit 32 (ucast v)"

text \<open>
  \<open>read_conn_tuple_partial\<close> in three parts, in the order of the source: the block
  that reads the addresses of an IPv6 socket into the halves that are still zero, the
  block under \<open>// Retrieve addresses\<close> (its \<open>False\<close> is an early \<open>return 0\<close>), and the
  whole function, which ends with the block under \<open>// Retrieve ports\<close>. The result is
  the returned \<open>int\<close> and the tuple as the function leaves it.
\<close>

definition read_v6_addrs :: "conn_tuple_t \<Rightarrow> sock \<Rightarrow> conn_tuple_t" where
  "read_v6_addrs t skp =
     (let t = (if \<not> (saddr_h t \<noteq> 0 \<or> saddr_l t \<noteq> 0)
               then
                 let t = t\<lparr>saddr_h := store_u32_0 (saddr_h t) (s6_addr32_0 (sk_v6_rcv_saddr skp))\<rparr>;
                     t = t\<lparr>saddr_h := store_u32_1 (saddr_h t) (s6_addr32_1 (sk_v6_rcv_saddr skp))\<rparr>;
                     t = t\<lparr>saddr_l := store_u32_0 (saddr_l t) (s6_addr32_2 (sk_v6_rcv_saddr skp))\<rparr>
                 in t\<lparr>saddr_l := store_u32_1 (saddr_l t) (s6_addr32_3 (sk_v6_rcv_saddr skp))\<rparr>
               else t)
      in if \<not> (daddr_h t \<noteq> 0 \<or> daddr_l t \<noteq> 0)
         then
           let t = t\<lparr>daddr_h := store_u32_0 (daddr_h t) (s6_addr32_0 (sk_v6_daddr skp))\<rparr>;
               t = t\<lparr>daddr_h := store_u32_1 (daddr_h t) (s6_addr32_1 (sk_v6_daddr skp))\<rparr>;
               t = t\<lparr>daddr_l := store_u32_0 (daddr_l t) (s6_addr32_2 (sk_v6_daddr skp))\<rparr>
           in t\<lparr>daddr_l := store_u32_1 (daddr_l t) (s6_addr32_3 (sk_v6_daddr skp))\<rparr>
         else t)"

definition retrieve_addresses :: "defs \<Rightarrow> conn_tuple_t \<Rightarrow> sock \<Rightarrow> bool \<times> conn_tuple_t" where
  "retrieve_addresses c t skp =
     (if check_family skp AF_INET then
        let t = t\<lparr>metadata := metadata t OR CONN_V4 c\<rparr>;
            t = (if saddr_l t = 0 then t\<lparr>saddr_l := ucast (sk_rcv_saddr skp)\<rparr> else t);
            t = (if saddr_l t = 0 then t\<lparr>saddr_l := ucast (inet_saddr skp)\<rparr> else t);
            t = (if daddr_l t = 0 then t\<lparr>daddr_l := ucast (sk_daddr skp)\<rparr> else t)
        in if saddr_l t = 0 \<or> daddr_l t = 0 then (False, t) else (True, t)
      else if check_family skp AF_INET6 then
        if \<not> is_ipv6_enabled c then (False, t)
        else
          let t = read_v6_addrs t skp in
          if \<not> (saddr_h t \<noteq> 0 \<or> saddr_l t \<noteq> 0) then (False, t)
          else if \<not> (daddr_h t \<noteq> 0 \<or> daddr_l t \<noteq> 0) then (False, t)
          else if is_ipv4_mapped_ipv6 c (saddr_h t) (saddr_l t) (daddr_h t) (daddr_l t) then
            let t = t\<lparr>metadata := metadata t OR CONN_V4 c\<rparr>;
                t = t\<lparr>saddr_h := 0\<rparr>;
                t = t\<lparr>daddr_h := 0\<rparr>;
                t = t\<lparr>saddr_l := ucast (ucast (drop_bit 32 (saddr_l t)) :: u32)\<rparr>;
                t = t\<lparr>daddr_l := ucast (ucast (drop_bit 32 (daddr_l t)) :: u32)\<rparr>
            in (True, t)
          else (True, t\<lparr>metadata := metadata t OR CONN_V6 c\<rparr>)
      else (False, t))"

definition read_conn_tuple_partial ::
  "defs \<Rightarrow> conn_tuple_t \<Rightarrow> sock \<Rightarrow> u64 \<Rightarrow> u32 \<Rightarrow> int \<times> conn_tuple_t" where
  "read_conn_tuple_partial c t skp pid_tgid type =
     (let t = t\<lparr>pid := ucast (drop_bit 32 pid_tgid)\<rparr>;
          t = t\<lparr>metadata := type\<rparr>;
          t = t\<lparr>netns := get_netns_from_sock skp\<rparr>
      in case retrieve_addresses c t skp of
           (False, t) \<Rightarrow> (0, t)
         | (True, t) \<Rightarrow>
             let t = (if sport t = 0 then t\<lparr>sport := read_sport skp\<rparr> else t);
                 t = (if dport t = 0 then t\<lparr>dport := bpf_ntohs (sk_dport skp)\<rparr> else t)
             in if sport t = 0 \<or> dport t = 0 then (0, t) else (1, t))"

text \<open>\<open>read_conn_tuple\<close>: the tuple is zeroed first.\<close>

definition conn_tuple_zero :: conn_tuple_t where
  "conn_tuple_zero =
     \<lparr>saddr_h = 0, saddr_l = 0, daddr_h = 0, daddr_l = 0, sport = 0, dport = 0,
      netns = 0, pid = 0, metadata = 0\<rparr>"

definition read_conn_tuple :: "defs \<Rightarrow> sock \<Rightarrow> u64 \<Rightarrow> u32 \<Rightarrow> int \<times> conn_tuple_t" where
  "read_conn_tuple c skp pid_tgid type = read_conn_tuple_partial c conn_tuple_zero skp pid_tgid type"

definition read_conn_tuple_partial_from_flowi4 ::
  "defs \<Rightarrow> conn_tuple_t \<Rightarrow> flowi4 \<Rightarrow> u64 \<Rightarrow> u32 \<Rightarrow> int \<times> conn_tuple_t" where
  "read_conn_tuple_partial_from_flowi4 c t fl4 pid_tgid type =
     (let t = t\<lparr>pid := ucast (drop_bit 32 pid_tgid)\<rparr>;
          t = t\<lparr>metadata := type\<rparr>;
          t = t\<lparr>saddr_l := ucast (fl4_saddr fl4)\<rparr>;
          t = t\<lparr>daddr_l := ucast (fl4_daddr fl4)\<rparr>
      in if saddr_l t = 0 \<or> daddr_l t = 0 then (0, t)
         else
           let t = t\<lparr>sport := fl4_sport fl4\<rparr>;
               t = t\<lparr>dport := fl4_dport fl4\<rparr>
           in if sport t = 0 \<or> dport t = 0 then (0, t)
              else
                let t = t\<lparr>sport := bpf_ntohs (sport t)\<rparr>;
                    t = t\<lparr>dport := bpf_ntohs (dport t)\<rparr>
                in (1, t))"

definition read_conn_tuple_partial_from_flowi6 ::
  "defs \<Rightarrow> conn_tuple_t \<Rightarrow> flowi6 \<Rightarrow> u64 \<Rightarrow> u32 \<Rightarrow> int \<times> conn_tuple_t" where
  "read_conn_tuple_partial_from_flowi6 c t fl6 pid_tgid type =
     (let t = t\<lparr>pid := ucast (drop_bit 32 pid_tgid)\<rparr>;
          t = t\<lparr>metadata := type\<rparr>;
          addr = fl6_saddr fl6;
          t = (case read_in6_addr c (saddr_h t) (saddr_l t) addr of
                 (h, l) \<Rightarrow> t\<lparr>saddr_h := h, saddr_l := l\<rparr>);
          addr = fl6_daddr fl6;
          t = (case read_in6_addr c (daddr_h t) (daddr_l t) addr of
                 (h, l) \<Rightarrow> t\<lparr>daddr_h := h, daddr_l := l\<rparr>)
      in if \<not> (saddr_h t \<noteq> 0 \<or> saddr_l t \<noteq> 0) then (0, t)
         else if \<not> (daddr_h t \<noteq> 0 \<or> daddr_l t \<noteq> 0) then (0, t)
         else
           let t = (if is_ipv4_mapped_ipv6 c (saddr_h t) (saddr_l t) (daddr_h t) (daddr_l t)
                    then
                      let t = t\<lparr>metadata := metadata t OR CONN_V4 c\<rparr>;
                          t = t\<lparr>saddr_h := 0\<rparr>;
                          t = t\<lparr>daddr_h := 0\<rparr>;
                          t = t\<lparr>saddr_l := ucast (ucast (drop_bit 32 (saddr_l t)) :: u32)\<rparr>
                      in t\<lparr>daddr_l := ucast (ucast (drop_bit 32 (daddr_l t)) :: u32)\<rparr>
                    else t\<lparr>metadata := metadata t OR CONN_V6 c\<rparr>);
               t = t\<lparr>sport := fl6_sport fl6\<rparr>;
               t = t\<lparr>dport := fl6_dport fl6\<rparr>
           in if sport t = 0 \<or> dport t = 0 then (0, t)
              else
                let t = t\<lparr>sport := bpf_ntohs (sport t)\<rparr>;
                    t = t\<lparr>dport := bpf_ntohs (dport t)\<rparr>
                in (1, t))"

section \<open>Runs of several invocations on one worker\<close>

text \<open>
  The records of a list enqueued one after the other on one CPU, first to last.
\<close>

fun kafka_enqueue_all :: "defs \<Rightarrow> u32 \<Rightarrow> kafka_transaction_t list \<Rightarrow> kafka_maps \<Rightarrow> kafka_maps" where
  "kafka_enqueue_all c smp [] s = s"
| "kafka_enqueue_all c smp (r # rs) s = kafka_enqueue_all c smp rs (kafka_enqueue c smp r s)"

text \<open>
  The segments of one flow presented to \<open>kafka_allow_packet\<close> in their order of arrival,
  each with the outcome of the map update its invocation would make; the result lists
  the TCP sequence numbers of the segments it admits, in that order.
\<close>

fun admitted_seqs ::
  "defs \<Rightarrow> kafka_transaction_t \<Rightarrow> (bool \<times> sk_buff \<times> skb_info_t) list \<Rightarrow> kafka_maps \<Rightarrow>
     u32 list" where
  "admitted_seqs c kafka [] s = []"
| "admitted_seqs c kafka ((stored, skb, skb_info) # segs) s =
     (case kafka_allow_packet c stored kafka skb skb_info s of
        (allowed, s') \<Rightarrow>
          (if allowed then [skb_tcp_seq skb_info] else []) @ admitted_seqs c kafka segs s')"

section \<open>Concrete inputs\<close>

text \<open>
  One instance of the parameters, on which the model is evaluated: the TCP and V6 bits
  of the metadata mask are bits 0 and 1 and V4 is the absence of the V6 bit, FIN and RST
  are bits 0 and 2 of the TCP flags, a page holds three records and a CPU has three
  pages. A pair of addresses is taken for IPv4-mapped when one of the two has a zero
  upper half and \<open>0xFFFF0000\<close> in the low word of its lower half, and \<open>read_in6_addr\<close>
  loads the four words of the address into the two halves.
\<close>

definition example_defs :: defs where
  "example_defs =
     \<lparr>CONN_V4 = 0, CONN_V6 = 2, CONN_TYPE_TCP = 1, TCPHDR_FIN = 1, TCPHDR_RST = 4,
      ENABLED = 1, ipv6_enabled = 1, KAFKA_BATCH_SIZE = 3, KAFKA_BATCH_PAGES = 3,
      is_ipv4_mapped_ipv6 = (\<lambda>sh sl dh dl.
         (sh = 0 \<and> (ucast sl :: u32) = 0xFFFF0000) \<or> (dh = 0 \<and> (ucast dl :: u32) = 0xFFFF0000)),
      read_in6_addr = (\<lambda>h l a.
         (ucast (s6_addr32_0 a) OR push_bit 32 (ucast (s6_addr32_1 a)),
          ucast (s6_addr32_2 a) OR push_bit 32 (ucast (s6_addr32_3 a))))\<rparr>"

text \<open>A tuple flagged TCP, a transaction for it, and segments of that flow.\<close>

definition example_tuple :: conn_tuple_t where
  "example_tuple =
     \<lparr>saddr_h = 0, saddr_l = 0x0100000A, daddr_h = 0, daddr_l = 0x0200000A,
      sport = 40000, dport = 9092, netns = 1, pid = 7, metadata = 1\<rparr>"

definition example_tx :: "u32 \<Rightarrow> kafka_transaction_t" where
  "example_tx n = \<lparr>tup = example_tuple, tcp_seq = n, request_fragment = [], topic_name = []\<rparr>"

definition example_skb :: sk_buff where
  "example_skb = \<lparr>len = 120\<rparr>"

definition example_segment :: "u32 \<Rightarrow> skb_info_t" where
  "example_segment n = \<lparr>data_off = 54, skb_tcp_seq = n, tcp_flags = 16\<rparr>"

definition example_empty_segment :: "u8 \<Rightarrow> skb_info_t" where
  "example_empty_segment fl = \<lparr>data_off = 120, skb_tcp_seq = 100, tcp_flags = fl\<rparr>"

text \<open>
  The maps of CPU 0 with the two cursors at \<open>w\<close> and \<open>f\<close>, three pages whose fill counts
  are \<open>p0\<close>, \<open>p1\<close> and \<open>p2\<close>, nothing exported, and the sequence number \<open>q\<close> stored
  for the flow of \<open>example_tuple\<close>.
\<close>

definition example_page :: "int \<Rightarrow> kafka_batch_t" where
  "example_page p = \<lparr>batch_idx = 0, pos = p, txs = [example_tx 0, example_tx 0, example_tx 0]\<rparr>"

definition example_maps :: "u64 \<Rightarrow> u64 \<Rightarrow> int \<Rightarrow> int \<Rightarrow> int \<Rightarrow> u32 option \<Rightarrow> kafka_maps" where
  "example_maps w f p0 p1 p2 q =
     \<lparr>kafka_batch_state = [0 \<mapsto> \<lparr>idx = w, idx_to_flush = f\<rparr>],
      kafka_batches =
        [\<lparr>cpu = 0, page_num = 0\<rparr> \<mapsto> example_page p0,
         \<lparr>cpu = 0, page_num = 1\<rparr> \<mapsto> example_page p1,
         \<lparr>cpu = 0, page_num = 2\<rparr> \<mapsto> example_page p2],
      kafka_batch_events = [],
      kafka_in_flight = Map.empty,
      kafka_last_tcp_seq_per_connection = (\<lambda>k. if k = example_tuple then q else None)\<rparr>"

text \<open>
  Sockets and route descriptors: an IPv4 socket, an IPv6 socket between \<open>2001:db8::1\<close>
  and \<open>2001:db8::2\<close>, an IPv6 socket between \<open>::ffff:10.0.0.1\<close> and \<open>::ffff:10.0.0.2\<close>,
  and the same flows as route descriptors. Words and ports are in network byte order,
  read on a little-endian target.
\<close>

definition in6_zero :: in6_addr where
  "in6_zero = \<lparr>s6_addr32_0 = 0, s6_addr32_1 = 0, s6_addr32_2 = 0, s6_addr32_3 = 0\<rparr>"

definition example_sock4 :: sock where
  "example_sock4 =
     \<lparr>sk_family = 2, sk_net_ns_inum = 4026531840, sk_num = 40000, sk_dport = 0x8423,
      sk_rcv_saddr = 0x0100000A, sk_daddr = 0x0200000A,
      sk_v6_rcv_saddr = in6_zero, sk_v6_daddr = in6_zero,
      inet_saddr = 0x0100000A, inet_sport = 0x409C\<rparr>"

definition example_sock6 :: sock where
  "example_sock6 =
     \<lparr>sk_family = 10, sk_net_ns_inum = 4026531840, sk_num = 40000, sk_dport = 0x8423,
      sk_rcv_saddr = 0, sk_daddr = 0,
      sk_v6_rcv_saddr =
        \<lparr>s6_addr32_0 = 0xB80D0120, s6_addr32_1 = 0, s6_addr32_2 = 0, s6_addr32_3 = 0x01000000\<rparr>,
      sk_v6_daddr =
        \<lparr>s6_addr32_0 = 0xB80D0120, s6_addr32_1 = 0, s6_addr32_2 = 0, s6_addr32_3 = 0x02000000\<rparr>,
      inet_saddr = 0, inet_sport = 0x409C\<rparr>"

definition example_sock_mapped :: sock where
  "example_sock_mapped =
     \<lparr>sk_family = 10, sk_net_ns_inum = 4026531840, sk_num = 40000, sk_dport = 0x8423,
      sk_rcv_saddr = 0, sk_daddr = 0,
      sk_v6_rcv_saddr =
        \<lparr>s6_addr32_0 = 0, s6_addr32_1 = 0, s6_addr32_2 = 0xFFFF0000, s6_addr32_3 = 0x0100000A\<rparr>,
      sk_v6_daddr =
        \<lparr>s6_addr32_0 = 0, s6_addr32_1 = 0, s6_addr32_2 = 0xFFFF0000, s6_addr32_3 = 0x0200000A\<rparr>,
      inet_saddr = 0, inet_sport = 0x409C\<rparr>"

definition example_sock_unix :: sock where
  "example_sock_unix = example_sock4\<lparr>sk_family := 1\<rparr>"

definition example_flowi4 :: flowi4 where
  "example_flowi4 =
     \<lparr>fl4_saddr = 0x0100000A, fl4_daddr = 0x0200000A, fl4_sport = 0x409C, fl4_dport = 0x8423\<rparr>"

definition example_flowi6_mapped :: flowi6 where
  "example_flowi6_mapped =
     \<lparr>fl6_saddr = sk_v6_rcv_saddr example_sock_mapped,
      fl6_daddr = sk_v6_daddr example_sock_mapped,
      fl6_sport = 0x409C, fl6_dport = 0x8423\<rparr>"

text \<open>
  Tuples that enter extraction with fields already set: one with both IPv4 addresses and
  both ports, one with the upper halves of both IPv6 addresses.
\<close>

definition example_preset :: conn_tuple_t where
  "example_preset =
     conn_tuple_zero\<lparr>saddr_l := 0x0500000A, daddr_l := 0x0600000A, sport := 1234, dport := 80\<rparr>"

definition example_preset6 :: conn_tuple_t where
  "example_preset6 = conn_tuple_zero\<lparr>saddr_h := 1, daddr_h := 2\<rparr>"

section \<open>Admission Filter\<close>

lemma word_and_or_zero_iff:
  fixes x a b :: "'a::len word"
  shows "x AND (a OR b) \<noteq> 0 \<longleftrightarrow> x AND a \<noteq> 0 \<or> x AND b \<noteq> 0"
  by (simp add: bit.conj_disj_distrib or_eq_0_iff)

text \<open>
  C4. A segment whose tuple is not flagged TCP is never admitted, and the maps are left as
  they were. A TCP segment with an empty payload is admitted exactly when its control
  flags include FIN or RST; the maps are neither read nor written, so the verdict is the
  same whatever sequence number is stored for the flow. A TCP segment with a payload is
  admitted exactly when the sequence check passes. None of this depends on the outcome
  of the map update.
\<close>

theorem kafka_allow_packet_admission:
  "(metadata (tup k) AND CONN_TYPE_TCP c = 0 \<longrightarrow> kafka_allow_packet c ok k skb i s = (False, s)) \<and>
   (metadata (tup k) AND CONN_TYPE_TCP c \<noteq> 0 \<and> data_off i = len skb \<longrightarrow>
      kafka_allow_packet c ok k skb i s =
        (tcp_flags i AND TCPHDR_FIN c \<noteq> 0 \<or> tcp_flags i AND TCPHDR_RST c \<noteq> 0, s) \<and>
      fst (kafka_allow_packet c ok' k skb i s') = fst (kafka_allow_packet c ok k skb i s)) \<and>
   (metadata (tup k) AND CONN_TYPE_TCP c \<noteq> 0 \<and> data_off i \<noteq> len skb \<longrightarrow>
      fst (kafka_allow_packet c ok k skb i s) =
        (kafka_last_tcp_seq_per_connection s (tup k) \<noteq> Some (skb_tcp_seq i)))"
  by (auto simp add: kafka_allow_packet_def Let_def word_and_or_zero_iff)

theorem kafka_allow_packet_admission_witness:
  "kafka_allow_packet example_defs True (example_tx 0\<lparr>tup := example_tuple\<lparr>metadata := 0\<rparr>\<rparr>)
       example_skb (example_segment 100) (example_maps 0 0 0 0 0 None) =
     (False, example_maps 0 0 0 0 0 None) \<and>
   kafka_allow_packet example_defs True (example_tx 0) example_skb (example_empty_segment 1)
       (example_maps 0 0 0 0 0 (Some 100)) = (True, example_maps 0 0 0 0 0 (Some 100)) \<and>
   kafka_allow_packet example_defs True (example_tx 0) example_skb (example_empty_segment 16)
       (example_maps 0 0 0 0 0 None) = (False, example_maps 0 0 0 0 0 None) \<and>
   fst (kafka_allow_packet example_defs False (example_tx 0) example_skb (example_segment 100)
       (example_maps 0 0 0 0 0 (Some 99)))"
  using kafka_allow_packet_admission [where k = "example_tx 0\<lparr>tup := example_tuple\<lparr>metadata := 0\<rparr>\<rparr>"
      and c = example_defs and ok = True and skb = example_skb and i = "example_segment 100"
      and s = "example_maps 0 0 0 0 0 None"]
    kafka_allow_packet_admission [where k = "example_tx 0" and c = example_defs and ok = True
      and skb = example_skb and i = "example_empty_segment 1"
      and s = "example_maps 0 0 0 0 0 (Some 100)"]
    kafka_allow_packet_admission [where k = "example_tx 0" and c = example_defs and ok = True
      and skb = example_skb and i = "example_empty_segment 16"
      and s = "example_maps 0 0 0 0 0 None"]
    kafka_allow_packet_admission [where k = "example_tx 0" and c = example_defs and ok = False
      and skb = example_skb and i = "example_segment 100"
      and s = "example_maps 0 0 0 0 0 (Some 99)"]
  by (simp add: example_defs_def example_tx_def example_tuple_def example_skb_def
      example_segment_def example_empty_segment_def example_maps_def)

section \<open>Dedup Guard\<close>

text \<open>
  C5, as the code has it. For a TCP segment with a payload: if the sequence number stored
  for its tuple is the segment's own, the segment is rejected and the maps are left as
  they were; otherwise it is admitted, and the stored sequence number becomes the
  segment's when the map update succeeds, while a failed update leaves the maps as they
  were. A second segment with a payload, the same tuple and the same sequence number,
  presented right after, is rejected and changes nothing, provided the first was rejected
  or its update succeeded; after an admission whose update failed it is admitted again.
  \<open>ok\<close> is the outcome of the first update and \<open>ok'\<close> that of the second.
\<close>

theorem kafka_allow_packet_dedup:
  assumes "metadata (tup k) AND CONN_TYPE_TCP c \<noteq> 0" and "data_off i \<noteq> len skb"
  shows "(kafka_last_tcp_seq_per_connection s (tup k) = Some (skb_tcp_seq i) \<longrightarrow>
            kafka_allow_packet c ok k skb i s = (False, s)) \<and>
         (kafka_last_tcp_seq_per_connection s (tup k) \<noteq> Some (skb_tcp_seq i) \<longrightarrow>
            kafka_allow_packet c ok k skb i s =
              (True,
               if ok
               then s\<lparr>kafka_last_tcp_seq_per_connection :=
                        (kafka_last_tcp_seq_per_connection s)(tup k \<mapsto> skb_tcp_seq i)\<rparr>
               else s)) \<and>
         (ok \<or> kafka_last_tcp_seq_per_connection s (tup k) = Some (skb_tcp_seq i) \<longrightarrow>
            (\<forall>k' skb' i'.
               tup k' = tup k \<and> skb_tcp_seq i' = skb_tcp_seq i \<and> data_off i' \<noteq> len skb' \<longrightarrow>
               kafka_allow_packet c ok' k' skb' i' (snd (kafka_allow_packet c ok k skb i s)) =
                 (False, snd (kafka_allow_packet c ok k skb i s)))) \<and>
         (\<not> ok \<and> kafka_last_tcp_seq_per_connection s (tup k) \<noteq> Some (skb_tcp_seq i) \<longrightarrow>
            (\<forall>k' skb' i'.
               tup k' = tup k \<and> skb_tcp_seq i' = skb_tcp_seq i \<and> data_off i' \<noteq> len skb' \<longrightarrow>
               fst (kafka_allow_packet c ok' k' skb' i' (snd (kafka_allow_packet c ok k skb i s)))))"
  using assms by (auto simp add: kafka_allow_packet_def bpf_map_update_any_def Let_def)

theorem kafka_allow_packet_dedup_witness:
  "kafka_allow_packet example_defs True (example_tx 0) example_skb (example_segment 100)
       (example_maps 0 0 0 0 0 (Some 100)) = (False, example_maps 0 0 0 0 0 (Some 100)) \<and>
   fst (kafka_allow_packet example_defs True (example_tx 0) example_skb (example_segment 100)
       (example_maps 0 0 0 0 0 None)) \<and>
   \<not> fst (kafka_allow_packet example_defs True (example_tx 0) example_skb (example_segment 100)
       (snd (kafka_allow_packet example_defs True (example_tx 0) example_skb (example_segment 100)
          (example_maps 0 0 0 0 0 None)))) \<and>
   fst (kafka_allow_packet example_defs True (example_tx 0) example_skb (example_segment 100)
       (snd (kafka_allow_packet example_defs False (example_tx 0) example_skb (example_segment 100)
          (example_maps 0 0 0 0 0 None))))"
proof -
  have tcp: "metadata (tup (example_tx 0)) AND CONN_TYPE_TCP example_defs \<noteq> 0"
    by (simp add: example_tx_def example_tuple_def example_defs_def)
  have ne: "data_off (example_segment 100) \<noteq> len example_skb"
    by (simp add: example_segment_def example_skb_def)
  have stored: "kafka_last_tcp_seq_per_connection (example_maps 0 0 0 0 0 (Some 100)) (tup (example_tx 0))
      = Some (skb_tcp_seq (example_segment 100))"
    by (simp add: example_maps_def example_tx_def example_segment_def)
  have fresh: "kafka_last_tcp_seq_per_connection (example_maps 0 0 0 0 0 None) (tup (example_tx 0))
      \<noteq> Some (skb_tcp_seq (example_segment 100))"
    by (simp add: example_maps_def example_tx_def)
  show ?thesis
    using kafka_allow_packet_dedup [OF tcp ne, where s = "example_maps 0 0 0 0 0 (Some 100)"
        and ok = True and ok' = True]
      kafka_allow_packet_dedup [OF tcp ne, where s = "example_maps 0 0 0 0 0 None"
        and ok = True and ok' = True]
      kafka_allow_packet_dedup [OF tcp ne, where s = "example_maps 0 0 0 0 0 None"
        and ok = False and ok' = True]
      stored fresh ne
    by auto
qed

text \<open>
  With nothing stored for the flow and a map update that fails, the segment with
  sequence number 100 is admitted, and the identical segment presented right after is
  admitted again.
\<close>

theorem kafka_allow_packet_failed_update_counterexample:
  "fst (kafka_allow_packet example_defs False (example_tx 0) example_skb (example_segment 100)
       (example_maps 0 0 0 0 0 None)) \<and>
   snd (kafka_allow_packet example_defs False (example_tx 0) example_skb (example_segment 100)
       (example_maps 0 0 0 0 0 None)) = example_maps 0 0 0 0 0 None \<and>
   fst (kafka_allow_packet example_defs False (example_tx 0) example_skb (example_segment 100)
       (snd (kafka_allow_packet example_defs False (example_tx 0) example_skb (example_segment 100)
          (example_maps 0 0 0 0 0 None))))"
  by (simp add: kafka_allow_packet_def bpf_map_update_any_def example_defs_def example_tx_def
      example_tuple_def example_skb_def example_segment_def example_maps_def)

lemma admitted_seqs_head:
  "admitted_seqs c k segs s = x # xs \<Longrightarrow>
     \<forall>(ok, skb, i) \<in> set segs. ok \<and> data_off i \<noteq> len skb \<Longrightarrow>
     kafka_last_tcp_seq_per_connection s (tup k) \<noteq> Some x"
proof (induction segs arbitrary: s)
  case Nil
  then show ?case by simp
next
  case (Cons seg segs)
  obtain ok skb i where seg: "seg = (ok, skb, i)" by (cases seg) auto
  show ?case
  proof (cases "fst (kafka_allow_packet c ok k skb i s)")
    case True
    with Cons.prems seg show ?thesis
      by (auto simp add: kafka_allow_packet_def Let_def split: if_splits)
  next
    case False
    then have same: "snd (kafka_allow_packet c ok k skb i s) = s"
      by (auto simp add: kafka_allow_packet_def Let_def split: if_splits)
    from False Cons.prems seg same have "admitted_seqs c k segs s = x # xs"
      by (simp split: prod.splits)
    with Cons.IH Cons.prems show ?thesis by simp
  qed
qed

lemma admitted_seqs_distinct_adj:
  "\<forall>(ok, skb, i) \<in> set segs. ok \<and> data_off i \<noteq> len skb \<Longrightarrow>
     distinct_adj (admitted_seqs c k segs s)"
proof (induction segs arbitrary: s)
  case Nil
  then show ?case by simp
next
  case (Cons seg segs)
  obtain ok skb i where seg: "seg = (ok, skb, i)" by (cases seg) auto
  obtain v s' where r: "kafka_allow_packet c ok k skb i s = (v, s')"
    by (cases "kafka_allow_packet c ok k skb i s")
  from Cons.prems have rest: "\<forall>(ok, skb, i) \<in> set segs. ok \<and> data_off i \<noteq> len skb" by simp
  have da: "distinct_adj (admitted_seqs c k segs s')" using Cons.IH rest by simp
  show ?case
  proof (cases v)
    case False
    with seg r da show ?thesis by simp
  next
    case True
    from True r Cons.prems seg have st: "kafka_last_tcp_seq_per_connection s' (tup k) = Some (skb_tcp_seq i)"
      by (auto simp add: kafka_allow_packet_def bpf_map_update_any_def Let_def split: if_splits)
    have "admitted_seqs c k segs s' = [] \<or> skb_tcp_seq i \<noteq> hd (admitted_seqs c k segs s')"
    proof (cases "admitted_seqs c k segs s'")
      case Nil then show ?thesis by simp
    next
      case (Cons x xs)
      from admitted_seqs_head [OF Cons rest] st show ?thesis using Cons by auto
    qed
    with True seg r da show ?thesis by (simp add: distinct_adj_Cons)
  qed
qed

text \<open>
  C10, as the code has it. The check compares for equality only. Among segments of one
  flow that carry a payload, presented in order on one worker, each with a map update
  that succeeds, no two admitted one after the other have the same sequence number, and
  the first admitted one differs from the sequence number stored before the run. The
  check does not order: a TCP segment with a payload whose sequence number is smaller
  than the stored one is admitted.
\<close>

theorem admitted_seqs_no_repeat:
  assumes "\<forall>(ok, skb, i) \<in> set segs. ok \<and> data_off i \<noteq> len skb"
  shows "distinct_adj (admitted_seqs c k segs s) \<and>
         (case admitted_seqs c k segs s of
            [] \<Rightarrow> True
          | x # _ \<Rightarrow> kafka_last_tcp_seq_per_connection s (tup k) \<noteq> Some x) \<and>
         (metadata (tup k) AND CONN_TYPE_TCP c \<noteq> 0 \<and> data_off j \<noteq> len skb \<and>
          kafka_last_tcp_seq_per_connection s (tup k) = Some y \<and> skb_tcp_seq j < y \<longrightarrow>
            fst (kafka_allow_packet c ok k skb j s) \<and>
            admitted_seqs c k [(ok, skb, j)] s = [skb_tcp_seq j])"
proof -
  have smaller: "metadata (tup k) AND CONN_TYPE_TCP c \<noteq> 0 \<and> data_off j \<noteq> len skb \<and>
          kafka_last_tcp_seq_per_connection s (tup k) = Some y \<and> skb_tcp_seq j < y \<longrightarrow>
            fst (kafka_allow_packet c ok k skb j s) \<and>
            admitted_seqs c k [(ok, skb, j)] s = [skb_tcp_seq j]"
    by (auto simp add: kafka_allow_packet_def Let_def)
  show ?thesis
    using assms admitted_seqs_distinct_adj [of segs c k s] admitted_seqs_head [of c k segs s]
    by (intro conjI smaller) (auto split: list.splits)
qed

theorem admitted_seqs_no_repeat_witness:
  "admitted_seqs example_defs (example_tx 0)
     [(True, example_skb, example_segment 100), (True, example_skb, example_segment 100),
      (True, example_skb, example_segment 50), (True, example_skb, example_segment 100)]
     (example_maps 0 0 0 0 0 (Some 7)) = [100, 50, 100] \<and>
   distinct_adj (admitted_seqs example_defs (example_tx 0)
     [(True, example_skb, example_segment 100), (True, example_skb, example_segment 100),
      (True, example_skb, example_segment 50), (True, example_skb, example_segment 100)]
     (example_maps 0 0 0 0 0 (Some 7))) \<and>
   fst (kafka_allow_packet example_defs False (example_tx 0) example_skb (example_segment 5)
     (example_maps 0 0 0 0 0 (Some 7)))"
proof -
  have ne: "\<forall>(ok, skb, i) \<in> set [(True, example_skb, example_segment 100),
      (True, example_skb, example_segment 100), (True, example_skb, example_segment 50),
      (True, example_skb, example_segment 100)]. ok \<and> data_off i \<noteq> len skb"
    by (simp add: example_segment_def example_skb_def)
  have run: "admitted_seqs example_defs (example_tx 0)
     [(True, example_skb, example_segment 100), (True, example_skb, example_segment 100),
      (True, example_skb, example_segment 50), (True, example_skb, example_segment 100)]
     (example_maps 0 0 0 0 0 (Some 7)) = [100, 50, 100]"
    by (simp add: kafka_allow_packet_def bpf_map_update_any_def example_defs_def example_tx_def
        example_tuple_def example_skb_def example_segment_def example_maps_def)
  have small: "metadata (tup (example_tx 0)) AND CONN_TYPE_TCP example_defs \<noteq> 0 \<and>
      data_off (example_segment 5) \<noteq> len example_skb \<and>
      kafka_last_tcp_seq_per_connection (example_maps 0 0 0 0 0 (Some 7)) (tup (example_tx 0)) = Some 7 \<and>
      skb_tcp_seq (example_segment 5) < 7"
    by (simp add: example_tx_def example_tuple_def example_defs_def example_segment_def
        example_skb_def example_maps_def)
  note inst = admitted_seqs_no_repeat [OF ne, where c = example_defs and k = "example_tx 0"
      and s = "example_maps 0 0 0 0 0 (Some 7)" and j = "example_segment 5" and skb = example_skb
      and y = 7 and ok = False]
  from inst [THEN conjunct1] inst [THEN conjunct2, THEN conjunct2, THEN mp, OF small] run
  show ?thesis by simp
qed

text \<open>
  With 100 stored for the flow, a segment with sequence number 50 is admitted; the
  segments 100 and 50, in this order, are both admitted; and when the map updates fail,
  the segment 100 presented twice is admitted twice.
\<close>

theorem dedup_not_monotonic_counterexample:
  "fst (kafka_allow_packet example_defs True (example_tx 0) example_skb (example_segment 50)
          (example_maps 0 0 0 0 0 (Some 100))) \<and>
   \<not> sorted_wrt (<) (admitted_seqs example_defs (example_tx 0)
        [(True, example_skb, example_segment 100), (True, example_skb, example_segment 50)]
        (example_maps 0 0 0 0 0 None)) \<and>
   admitted_seqs example_defs (example_tx 0)
        [(False, example_skb, example_segment 100), (False, example_skb, example_segment 100)]
        (example_maps 0 0 0 0 0 None) = [100, 100]"
  by (simp add: kafka_allow_packet_def bpf_map_update_any_def example_defs_def example_tx_def
      example_tuple_def example_skb_def example_segment_def example_maps_def)

section \<open>Transaction State Store\<close>


section \<open>Per-Worker Batch Buffer\<close>

lemma kafka_enqueue_all_append:
  "kafka_enqueue_all c smp (rs @ rs') s = kafka_enqueue_all c smp rs' (kafka_enqueue_all c smp rs s)"
  by (induction rs arbitrary: s) simp_all

lemma kafka_enqueue_full:
  assumes "kafka_batch_state s smp = Some bs"
    and "kafka_batches s (kafka_get_batch_key c smp (idx bs)) = Some b"
    and "pos b < 0 \<or> KAFKA_BATCH_SIZE c \<le> pos b"
  shows "kafka_enqueue c smp r s = s"
  using assms by (auto simp add: kafka_enqueue_def kafka_batch_full_def Let_def)

lemma kafka_enqueue_room:
  assumes "kafka_batch_state s smp = Some bs"
    and "kafka_batches s (kafka_get_batch_key c smp (idx bs)) = Some b"
    and "0 \<le> pos b" and "pos b < KAFKA_BATCH_SIZE c"
  shows "kafka_enqueue c smp r s =
           (let s' = s\<lparr>kafka_batches := (kafka_batches s)
                      (kafka_get_batch_key c smp (idx bs) \<mapsto>
                         b\<lparr>txs := (txs b)[nat (pos b) := r], pos := pos b + 1, batch_idx := idx bs\<rparr>)\<rparr>
            in if pos b + 1 = KAFKA_BATCH_SIZE c
               then s'\<lparr>kafka_batch_state := (kafka_batch_state s)(smp \<mapsto> bs\<lparr>idx := idx bs + 1\<rparr>)\<rparr>
               else s')"
  using assms by (simp add: kafka_enqueue_def kafka_batch_full_def Let_def)

lemma kafka_enqueue_all_partial:
  assumes bs: "kafka_batch_state s smp = Some bs"
    and b: "kafka_batches s (kafka_get_batch_key c smp (idx bs)) = Some b"
    and p: "pos b = 0" and l: "length (txs b) = nat (KAFKA_BATCH_SIZE c)"
  shows "int (length rs) < KAFKA_BATCH_SIZE c \<Longrightarrow>
         \<exists>b'. kafka_enqueue_all c smp rs s =
                 s\<lparr>kafka_batches := (kafka_batches s)(kafka_get_batch_key c smp (idx bs) \<mapsto> b')\<rparr> \<and>
               pos b' = int (length rs) \<and> take (length rs) (txs b') = rs \<and>
               length (txs b') = nat (KAFKA_BATCH_SIZE c) \<and> (rs \<noteq> [] \<longrightarrow> batch_idx b' = idx bs)"
proof (induction rs rule: rev_induct)
  case Nil
  have "s\<lparr>kafka_batches := (kafka_batches s)(kafka_get_batch_key c smp (idx bs) \<mapsto> b)\<rparr> = s"
    using b by (simp add: map_upd_triv)
  then have first: "kafka_enqueue_all c smp [] s =
      s\<lparr>kafka_batches := (kafka_batches s)(kafka_get_batch_key c smp (idx bs) \<mapsto> b)\<rparr>"
    by (simp only: kafka_enqueue_all.simps)
  show ?case
  proof (intro exI [of _ b] conjI)
    show "kafka_enqueue_all c smp [] s =
      s\<lparr>kafka_batches := (kafka_batches s)(kafka_get_batch_key c smp (idx bs) \<mapsto> b)\<rparr>"
      by (rule first)
  qed (use p l in simp_all)
next
  case (snoc r rs)
  let ?key = "kafka_get_batch_key c smp (idx bs)"
  from snoc.prems have less: "int (length rs) < KAFKA_BATCH_SIZE c" by simp
  from snoc.IH [OF less] obtain b' where
    run: "kafka_enqueue_all c smp rs s = s\<lparr>kafka_batches := (kafka_batches s)(?key \<mapsto> b')\<rparr>"
    and p': "pos b' = int (length rs)" and t': "take (length rs) (txs b') = rs"
    and l': "length (txs b') = nat (KAFKA_BATCH_SIZE c)"
    by blast
  let ?s1 = "s\<lparr>kafka_batches := (kafka_batches s)(?key \<mapsto> b')\<rparr>"
  let ?b2 = "b'\<lparr>txs := (txs b')[nat (pos b') := r], pos := pos b' + 1, batch_idx := idx bs\<rparr>"
  have bs1: "kafka_batch_state ?s1 smp = Some bs" using bs by simp
  have b1: "kafka_batches ?s1 ?key = Some b'" by simp
  have notfull: "pos b' + 1 \<noteq> KAFKA_BATCH_SIZE c" using snoc.prems p' by simp
  have step: "kafka_enqueue c smp r ?s1 = s\<lparr>kafka_batches := (kafka_batches s)(?key \<mapsto> ?b2)\<rparr>"
    using kafka_enqueue_room [OF bs1 b1, of r] p' less notfull by (simp add: Let_def)
  have len: "length rs < length (txs b')" using l' less by simp
  have "take (Suc (length rs)) ((txs b')[length rs := r]) = rs @ [r]"
    using len t' by (simp add: take_Suc_conv_app_nth)
  then have t2: "take (length (rs @ [r])) (txs ?b2) = rs @ [r]" using p' by simp
  have first: "kafka_enqueue_all c smp (rs @ [r]) s =
      s\<lparr>kafka_batches := (kafka_batches s)(?key \<mapsto> ?b2)\<rparr>"
    by (simp only: kafka_enqueue_all_append kafka_enqueue_all.simps run step)
  show ?case
  proof (intro exI [of _ ?b2] conjI)
    show "kafka_enqueue_all c smp (rs @ [r]) s =
      s\<lparr>kafka_batches := (kafka_batches s)(?key \<mapsto> ?b2)\<rparr>"
      by (rule first)
  qed (use t2 p' l' in simp_all)
qed

lemma kafka_enqueue_all_page_full:
  assumes bs: "kafka_batch_state s smp = Some bs"
    and b: "kafka_batches s (kafka_get_batch_key c smp (idx bs)) = Some b"
    and p: "pos b = 0" and l: "length (txs b) = nat (KAFKA_BATCH_SIZE c)"
    and n: "int (length rs) = KAFKA_BATCH_SIZE c" and pos: "0 < KAFKA_BATCH_SIZE c"
  shows "kafka_enqueue_all c smp rs s =
           s\<lparr>kafka_batches := (kafka_batches s)
               (kafka_get_batch_key c smp (idx bs) \<mapsto>
                  \<lparr>batch_idx = idx bs, pos = KAFKA_BATCH_SIZE c, txs = rs\<rparr>),
             kafka_batch_state := (kafka_batch_state s)(smp \<mapsto> bs\<lparr>idx := idx bs + 1\<rparr>)\<rparr>"
proof -
  let ?key = "kafka_get_batch_key c smp (idx bs)"
  from n pos have "rs \<noteq> []" by auto
  then obtain rs0 r where rs: "rs = rs0 @ [r]" by (metis rev_exhaust)
  with n have less: "int (length rs0) < KAFKA_BATCH_SIZE c" by simp
  from kafka_enqueue_all_partial [OF bs b p l less] obtain b' where
    run: "kafka_enqueue_all c smp rs0 s = s\<lparr>kafka_batches := (kafka_batches s)(?key \<mapsto> b')\<rparr>"
    and p': "pos b' = int (length rs0)" and t': "take (length rs0) (txs b') = rs0"
    and l': "length (txs b') = nat (KAFKA_BATCH_SIZE c)"
    by blast
  let ?s1 = "s\<lparr>kafka_batches := (kafka_batches s)(?key \<mapsto> b')\<rparr>"
  have bs1: "kafka_batch_state ?s1 smp = Some bs" using bs by simp
  have b1: "kafka_batches ?s1 ?key = Some b'" by simp
  have full: "pos b' + 1 = KAFKA_BATCH_SIZE c" using n rs p' by simp
  have len: "length rs0 < length (txs b')" using l' less by simp
  have "take (Suc (length rs0)) ((txs b')[length rs0 := r]) = rs0 @ [r]"
    using len t' by (simp add: take_Suc_conv_app_nth)
  moreover have "Suc (length rs0) = length ((txs b')[length rs0 := r])"
    using l' n rs by simp
  ultimately have all: "(txs b')[length rs0 := r] = rs"
    using rs by (metis take_all order_refl)
  have "b'\<lparr>txs := (txs b')[nat (pos b') := r], pos := pos b' + 1, batch_idx := idx bs\<rparr>
          = \<lparr>batch_idx = idx bs, pos = KAFKA_BATCH_SIZE c, txs = rs\<rparr>"
    using all full p' by simp
  then show ?thesis
    using kafka_enqueue_room [OF bs1 b1, of r] p' less full run rs
    by (simp add: Let_def kafka_enqueue_all_append)
qed

lemma kafka_get_batch_key_0_1:
  assumes "1 < KAFKA_BATCH_PAGES c"
  shows "kafka_get_batch_key c smp 0 = \<lparr>cpu = smp, page_num = 0\<rparr>"
    and "kafka_get_batch_key c smp 1 = \<lparr>cpu = smp, page_num = 1\<rparr>"
  using assms by (simp_all add: kafka_get_batch_key_def mod_word_less)

lemma kafka_enqueue_all_rollover:
  assumes cap: "2 \<le> KAFKA_BATCH_SIZE c" and pages: "1 < KAFKA_BATCH_PAGES c"
    and bs: "kafka_batch_state s smp = Some bs" and i0: "idx bs = 0"
    and b0: "kafka_batches s (kafka_get_batch_key c smp 0) = Some b0"
    and p0: "pos b0 = 0" and l0: "length (txs b0) = nat (KAFKA_BATCH_SIZE c)"
    and b1: "kafka_batches s (kafka_get_batch_key c smp 1) = Some b1"
    and p1: "pos b1 = 0"
    and n: "int (length rs) = KAFKA_BATCH_SIZE c"
  shows "kafka_enqueue_all c smp (rs @ [r]) s =
           s\<lparr>kafka_batches := (kafka_batches s)
               (kafka_get_batch_key c smp 0 \<mapsto> \<lparr>batch_idx = 0, pos = KAFKA_BATCH_SIZE c, txs = rs\<rparr>,
                kafka_get_batch_key c smp 1 \<mapsto> b1\<lparr>txs := (txs b1)[0 := r], pos := 1, batch_idx := 1\<rparr>),
             kafka_batch_state := (kafka_batch_state s)(smp \<mapsto> bs\<lparr>idx := 1\<rparr>)\<rparr>"
proof -
  let ?k0 = "kafka_get_batch_key c smp 0" and ?k1 = "kafka_get_batch_key c smp 1"
  let ?s1 = "s\<lparr>kafka_batches := (kafka_batches s)
               (?k0 \<mapsto> \<lparr>batch_idx = 0, pos = KAFKA_BATCH_SIZE c, txs = rs\<rparr>),
             kafka_batch_state := (kafka_batch_state s)(smp \<mapsto> bs\<lparr>idx := 1\<rparr>)\<rparr>"
  have ne: "?k1 \<noteq> ?k0" using kafka_get_batch_key_0_1 [OF pages, of smp] by simp
  have b0': "kafka_batches s (kafka_get_batch_key c smp (idx bs)) = Some b0" using b0 i0 by simp
  have run: "kafka_enqueue_all c smp rs s = ?s1"
    using kafka_enqueue_all_page_full [OF bs b0' p0 l0 n] cap i0 by simp
  have bs1: "kafka_batch_state ?s1 smp = Some (bs\<lparr>idx := 1\<rparr>)" by simp
  have b1': "kafka_batches ?s1 (kafka_get_batch_key c smp (idx (bs\<lparr>idx := 1\<rparr>))) = Some b1"
    using b1 ne by simp
  have "kafka_enqueue c smp r ?s1 =
          ?s1\<lparr>kafka_batches := (kafka_batches ?s1)
                 (?k1 \<mapsto> b1\<lparr>txs := (txs b1)[0 := r], pos := 1, batch_idx := 1\<rparr>)\<rparr>"
    using kafka_enqueue_room [OF bs1 b1', of r] p1 cap by (simp add: Let_def)
  with run show ?thesis by (simp add: kafka_enqueue_all_append)
qed


lemma kafka_enqueue_events:
  "kafka_batch_events (kafka_enqueue c smp r s) = kafka_batch_events s"
  by (simp add: kafka_enqueue_def Let_def split: option.split)

text \<open>
  C1. On the page at the write cursor of the CPU: when the fill count has reached the
  capacity (or is negative) the record is dropped and the maps are left as they were, so
  nothing is written past the capacity. Otherwise the record is stored at the position
  of the fill count, the fill count is incremented, and the write cursor advances by one
  exactly when the fill count thereby reaches the capacity. No enqueue exports anything.
  Hence, with a capacity of at least two and at least two pages per CPU, enqueuing
  capacity plus one records from the empty state (both cursors zero, pages empty) leaves
  page 0 holding exactly the first capacity records, page 1 holding the last record at
  position 0 with fill count one, and the write cursor at one.
\<close>

theorem kafka_enqueue_page:
  "(kafka_batch_state s smp = Some bs \<and>
    kafka_batches s (kafka_get_batch_key c smp (idx bs)) = Some b \<and>
    (pos b < 0 \<or> KAFKA_BATCH_SIZE c \<le> pos b) \<longrightarrow>
      kafka_enqueue c smp r s = s) \<and>
   (kafka_batch_state s smp = Some bs \<and>
    kafka_batches s (kafka_get_batch_key c smp (idx bs)) = Some b \<and>
    0 \<le> pos b \<and> pos b < KAFKA_BATCH_SIZE c \<longrightarrow>
      kafka_enqueue c smp r s =
        (let s' = s\<lparr>kafka_batches := (kafka_batches s)
                    (kafka_get_batch_key c smp (idx bs) \<mapsto>
                       b\<lparr>txs := (txs b)[nat (pos b) := r], pos := pos b + 1, batch_idx := idx bs\<rparr>)\<rparr>
         in if pos b + 1 = KAFKA_BATCH_SIZE c
            then s'\<lparr>kafka_batch_state := (kafka_batch_state s)(smp \<mapsto> bs\<lparr>idx := idx bs + 1\<rparr>)\<rparr>
            else s')) \<and>
   kafka_batch_events (kafka_enqueue c smp r s) = kafka_batch_events s \<and>
   (2 \<le> KAFKA_BATCH_SIZE c \<and> 1 < KAFKA_BATCH_PAGES c \<and>
    kafka_batch_state s smp = Some bs \<and> idx bs = 0 \<and>
    kafka_batches s (kafka_get_batch_key c smp 0) = Some b0 \<and>
    pos b0 = 0 \<and> length (txs b0) = nat (KAFKA_BATCH_SIZE c) \<and>
    kafka_batches s (kafka_get_batch_key c smp 1) = Some b1 \<and>
    pos b1 = 0 \<and> length (txs b1) = nat (KAFKA_BATCH_SIZE c) \<and>
    int (length rs) = KAFKA_BATCH_SIZE c \<longrightarrow>
      kafka_get_batch_key c smp 1 \<noteq> kafka_get_batch_key c smp 0 \<and>
      kafka_enqueue_all c smp (rs @ [r]) s =
        s\<lparr>kafka_batches := (kafka_batches s)
            (kafka_get_batch_key c smp 0 \<mapsto> \<lparr>batch_idx = 0, pos = KAFKA_BATCH_SIZE c, txs = rs\<rparr>,
             kafka_get_batch_key c smp 1 \<mapsto> b1\<lparr>txs := (txs b1)[0 := r], pos := 1, batch_idx := 1\<rparr>),
          kafka_batch_state := (kafka_batch_state s)(smp \<mapsto> bs\<lparr>idx := 1\<rparr>)\<rparr>)"
proof (intro conjI impI)
  assume "kafka_batch_state s smp = Some bs \<and>
    kafka_batches s (kafka_get_batch_key c smp (idx bs)) = Some b \<and>
    (pos b < 0 \<or> KAFKA_BATCH_SIZE c \<le> pos b)"
  then show "kafka_enqueue c smp r s = s"
    using kafka_enqueue_full [of s smp bs c b r] by blast
next
  assume "kafka_batch_state s smp = Some bs \<and>
    kafka_batches s (kafka_get_batch_key c smp (idx bs)) = Some b \<and>
    0 \<le> pos b \<and> pos b < KAFKA_BATCH_SIZE c"
  then show "kafka_enqueue c smp r s =
        (let s' = s\<lparr>kafka_batches := (kafka_batches s)
                    (kafka_get_batch_key c smp (idx bs) \<mapsto>
                       b\<lparr>txs := (txs b)[nat (pos b) := r], pos := pos b + 1, batch_idx := idx bs\<rparr>)\<rparr>
         in if pos b + 1 = KAFKA_BATCH_SIZE c
            then s'\<lparr>kafka_batch_state := (kafka_batch_state s)(smp \<mapsto> bs\<lparr>idx := idx bs + 1\<rparr>)\<rparr>
            else s')"
    using kafka_enqueue_room [of s smp bs c b r] by blast
next
  show "kafka_batch_events (kafka_enqueue c smp r s) = kafka_batch_events s"
    by (rule kafka_enqueue_events)
next
  assume h: "2 \<le> KAFKA_BATCH_SIZE c \<and> 1 < KAFKA_BATCH_PAGES c \<and>
    kafka_batch_state s smp = Some bs \<and> idx bs = 0 \<and>
    kafka_batches s (kafka_get_batch_key c smp 0) = Some b0 \<and>
    pos b0 = 0 \<and> length (txs b0) = nat (KAFKA_BATCH_SIZE c) \<and>
    kafka_batches s (kafka_get_batch_key c smp 1) = Some b1 \<and>
    pos b1 = 0 \<and> length (txs b1) = nat (KAFKA_BATCH_SIZE c) \<and>
    int (length rs) = KAFKA_BATCH_SIZE c"
  then show "kafka_get_batch_key c smp 1 \<noteq> kafka_get_batch_key c smp 0"
    using kafka_get_batch_key_0_1 [of c smp] by simp
  from h show "kafka_enqueue_all c smp (rs @ [r]) s =
        s\<lparr>kafka_batches := (kafka_batches s)
            (kafka_get_batch_key c smp 0 \<mapsto> \<lparr>batch_idx = 0, pos = KAFKA_BATCH_SIZE c, txs = rs\<rparr>,
             kafka_get_batch_key c smp 1 \<mapsto> b1\<lparr>txs := (txs b1)[0 := r], pos := 1, batch_idx := 1\<rparr>),
          kafka_batch_state := (kafka_batch_state s)(smp \<mapsto> bs\<lparr>idx := 1\<rparr>)\<rparr>"
    using kafka_enqueue_all_rollover [of c s smp bs b0 b1 rs r] by blast
qed

lemma example_keys:
  "kafka_get_batch_key example_defs 0 0 = \<lparr>cpu = 0, page_num = 0\<rparr>"
  "kafka_get_batch_key example_defs 0 1 = \<lparr>cpu = 0, page_num = 1\<rparr>"
  "kafka_get_batch_key example_defs 0 2 = \<lparr>cpu = 0, page_num = 2\<rparr>"
  by (simp_all add: kafka_get_batch_key_def example_defs_def mod_word_less)

theorem kafka_enqueue_page_witness:
  "kafka_enqueue example_defs 0 (example_tx 9) (example_maps 0 0 3 0 0 None) =
     example_maps 0 0 3 0 0 None \<and>
   kafka_batches (kafka_enqueue example_defs 0 (example_tx 9) (example_maps 0 0 2 0 0 None))
       \<lparr>cpu = 0, page_num = 0\<rparr> =
     Some \<lparr>batch_idx = 0, pos = 3, txs = [example_tx 0, example_tx 0, example_tx 9]\<rparr> \<and>
   kafka_batch_state (kafka_enqueue example_defs 0 (example_tx 9) (example_maps 0 0 2 0 0 None)) 0 =
     Some \<lparr>idx = 1, idx_to_flush = 0\<rparr> \<and>
   kafka_batches (kafka_enqueue_all example_defs 0
       ([example_tx 1, example_tx 2, example_tx 3] @ [example_tx 4]) (example_maps 0 0 0 0 0 None))
       \<lparr>cpu = 0, page_num = 0\<rparr> =
     Some \<lparr>batch_idx = 0, pos = 3, txs = [example_tx 1, example_tx 2, example_tx 3]\<rparr> \<and>
   kafka_batches (kafka_enqueue_all example_defs 0
       ([example_tx 1, example_tx 2, example_tx 3] @ [example_tx 4]) (example_maps 0 0 0 0 0 None))
       \<lparr>cpu = 0, page_num = 1\<rparr> =
     Some \<lparr>batch_idx = 1, pos = 1, txs = [example_tx 4, example_tx 0, example_tx 0]\<rparr> \<and>
   kafka_batch_state (kafka_enqueue_all example_defs 0
       ([example_tx 1, example_tx 2, example_tx 3] @ [example_tx 4]) (example_maps 0 0 0 0 0 None)) 0 =
     Some \<lparr>idx = 1, idx_to_flush = 0\<rparr>"
proof -
  let ?bs = "\<lparr>idx = 0, idx_to_flush = 0\<rparr>"
  let ?rs = "[example_tx 1, example_tx 2, example_tx 3]"
  have c: "KAFKA_BATCH_SIZE example_defs = 3" "KAFKA_BATCH_PAGES example_defs = 3"
    by (simp_all add: example_defs_def)
  have h1: "kafka_batch_state (example_maps 0 0 3 0 0 None) 0 = Some ?bs \<and>
      kafka_batches (example_maps 0 0 3 0 0 None) (kafka_get_batch_key example_defs 0 (idx ?bs)) =
        Some (example_page 3) \<and>
      (pos (example_page 3) < 0 \<or> KAFKA_BATCH_SIZE example_defs \<le> pos (example_page 3))"
    by (simp add: example_keys c example_maps_def example_page_def)
  have h2: "kafka_batch_state (example_maps 0 0 2 0 0 None) 0 = Some ?bs \<and>
      kafka_batches (example_maps 0 0 2 0 0 None) (kafka_get_batch_key example_defs 0 (idx ?bs)) =
        Some (example_page 2) \<and>
      0 \<le> pos (example_page 2) \<and> pos (example_page 2) < KAFKA_BATCH_SIZE example_defs"
    by (simp add: example_keys c example_maps_def example_page_def)
  have h3: "2 \<le> KAFKA_BATCH_SIZE example_defs \<and> 1 < KAFKA_BATCH_PAGES example_defs \<and>
      kafka_batch_state (example_maps 0 0 0 0 0 None) 0 = Some ?bs \<and> idx ?bs = 0 \<and>
      kafka_batches (example_maps 0 0 0 0 0 None) (kafka_get_batch_key example_defs 0 0) =
        Some (example_page 0) \<and>
      pos (example_page 0) = 0 \<and>
      length (txs (example_page 0)) = nat (KAFKA_BATCH_SIZE example_defs) \<and>
      kafka_batches (example_maps 0 0 0 0 0 None) (kafka_get_batch_key example_defs 0 1) =
        Some (example_page 0) \<and>
      pos (example_page 0) = 0 \<and>
      length (txs (example_page 0)) = nat (KAFKA_BATCH_SIZE example_defs) \<and>
      int (length ?rs) = KAFKA_BATCH_SIZE example_defs"
    by (simp add: example_keys c example_maps_def example_page_def)
  note full = kafka_enqueue_page [where s = "example_maps 0 0 3 0 0 None" and smp = 0 and bs = ?bs
      and c = example_defs and b = "example_page 3" and r = "example_tx 9",
      THEN conjunct1, THEN mp, OF h1]
  note room = kafka_enqueue_page [where s = "example_maps 0 0 2 0 0 None" and smp = 0 and bs = ?bs
      and c = example_defs and b = "example_page 2" and r = "example_tx 9",
      THEN conjunct2, THEN conjunct1, THEN mp, OF h2]
  note roll = kafka_enqueue_page [where s = "example_maps 0 0 0 0 0 None" and smp = 0 and bs = ?bs
      and c = example_defs and ?b0.0 = "example_page 0" and ?b1.0 = "example_page 0"
      and rs = ?rs and r = "example_tx 4",
      THEN conjunct2, THEN conjunct2, THEN conjunct2, THEN mp, OF h3, THEN conjunct2]
  show ?thesis
    unfolding full room roll
    by (simp add: example_keys c example_page_def Let_def)
qed


section \<open>Flush Trigger\<close>

lemma word_succ_neq: "(x::u64) + 1 \<noteq> x"
  by simp

lemma kafka_flush_batch_empty:
  assumes "kafka_batch_state s smp = Some bs" and "idx_to_flush bs = idx bs"
  shows "kafka_flush_batch c smp ok s = s"
  using assms by (simp add: kafka_flush_batch_def)

lemma kafka_flush_batch_pending:
  assumes "kafka_batch_state s smp = Some bs" and "idx_to_flush bs \<noteq> idx bs"
    and "kafka_batches s (kafka_get_batch_key c smp (idx_to_flush bs)) = Some b"
  shows "kafka_flush_batch c smp ok s =
           s\<lparr>kafka_batch_events :=
               (if ok then kafka_batch_events s @ [(smp, b)] else kafka_batch_events s),
             kafka_batches := (kafka_batches s)
               (kafka_get_batch_key c smp (idx_to_flush bs) \<mapsto> b\<lparr>pos := 0\<rparr>),
             kafka_batch_state := (kafka_batch_state s)
               (smp \<mapsto> bs\<lparr>idx_to_flush := idx_to_flush bs + 1\<rparr>)\<rparr>"
  using assms
  by (simp add: kafka_flush_batch_def Let_def bpf_perf_event_output_def kafka_get_batch_key_def)

text \<open>
  C2, as the code has it. When the flush cursor equals the write cursor a flush changes
  nothing and exports nothing. Otherwise it hands the whole page at the flush cursor to
  the export channel as one record, resets the fill count of that page to zero and
  advances the flush cursor by one, whether or not the channel accepted the record. A
  flush drains one page: when exactly one page is pending (the write cursor is the flush
  cursor plus one), the second of two consecutive flushes changes nothing, and the two
  together export that one page.
\<close>

theorem kafka_flush_batch_page:
  "(kafka_batch_state s smp = Some bs \<and> idx_to_flush bs = idx bs \<longrightarrow>
      kafka_flush_batch c smp ok s = s) \<and>
   (kafka_batch_state s smp = Some bs \<and> idx_to_flush bs \<noteq> idx bs \<and>
    kafka_batches s (kafka_get_batch_key c smp (idx_to_flush bs)) = Some b \<longrightarrow>
      kafka_flush_batch c smp ok s =
        s\<lparr>kafka_batch_events :=
            (if ok then kafka_batch_events s @ [(smp, b)] else kafka_batch_events s),
          kafka_batches := (kafka_batches s)
            (kafka_get_batch_key c smp (idx_to_flush bs) \<mapsto> b\<lparr>pos := 0\<rparr>),
          kafka_batch_state := (kafka_batch_state s)
            (smp \<mapsto> bs\<lparr>idx_to_flush := idx_to_flush bs + 1\<rparr>)\<rparr>) \<and>
   (kafka_batch_state s smp = Some bs \<and> idx bs = idx_to_flush bs + 1 \<and>
    kafka_batches s (kafka_get_batch_key c smp (idx_to_flush bs)) = Some b \<longrightarrow>
      kafka_flush_batch c smp ok' (kafka_flush_batch c smp ok s) = kafka_flush_batch c smp ok s \<and>
      kafka_batch_events (kafka_flush_batch c smp ok' (kafka_flush_batch c smp ok s)) =
        kafka_batch_events s @ (if ok then [(smp, b)] else []))"
proof (intro conjI impI)
  assume "kafka_batch_state s smp = Some bs \<and> idx_to_flush bs = idx bs"
  then show "kafka_flush_batch c smp ok s = s"
    using kafka_flush_batch_empty by blast
next
  assume "kafka_batch_state s smp = Some bs \<and> idx_to_flush bs \<noteq> idx bs \<and>
    kafka_batches s (kafka_get_batch_key c smp (idx_to_flush bs)) = Some b"
  then show "kafka_flush_batch c smp ok s =
        s\<lparr>kafka_batch_events :=
            (if ok then kafka_batch_events s @ [(smp, b)] else kafka_batch_events s),
          kafka_batches := (kafka_batches s)
            (kafka_get_batch_key c smp (idx_to_flush bs) \<mapsto> b\<lparr>pos := 0\<rparr>),
          kafka_batch_state := (kafka_batch_state s)
            (smp \<mapsto> bs\<lparr>idx_to_flush := idx_to_flush bs + 1\<rparr>)\<rparr>"
    using kafka_flush_batch_pending by blast
next
  assume h: "kafka_batch_state s smp = Some bs \<and> idx bs = idx_to_flush bs + 1 \<and>
    kafka_batches s (kafka_get_batch_key c smp (idx_to_flush bs)) = Some b"
  then have ne: "idx_to_flush bs \<noteq> idx bs" by simp
  let ?s1 = "kafka_flush_batch c smp ok s"
  have first: "?s1 =
        s\<lparr>kafka_batch_events :=
            (if ok then kafka_batch_events s @ [(smp, b)] else kafka_batch_events s),
          kafka_batches := (kafka_batches s)
            (kafka_get_batch_key c smp (idx_to_flush bs) \<mapsto> b\<lparr>pos := 0\<rparr>),
          kafka_batch_state := (kafka_batch_state s)
            (smp \<mapsto> bs\<lparr>idx_to_flush := idx_to_flush bs + 1\<rparr>)\<rparr>"
    using kafka_flush_batch_pending [of s smp bs c b ok] h ne by blast
  have bs1: "kafka_batch_state ?s1 smp = Some (bs\<lparr>idx_to_flush := idx_to_flush bs + 1\<rparr>)"
    by (simp add: first)
  have "idx_to_flush (bs\<lparr>idx_to_flush := idx_to_flush bs + 1\<rparr>) = idx (bs\<lparr>idx_to_flush := idx_to_flush bs + 1\<rparr>)"
    using h by simp
  from kafka_flush_batch_empty [OF bs1 this]
  show second: "kafka_flush_batch c smp ok' ?s1 = ?s1" .
  show "kafka_batch_events (kafka_flush_batch c smp ok' ?s1) =
        kafka_batch_events s @ (if ok then [(smp, b)] else [])"
    unfolding second by (simp add: first)
qed

theorem kafka_flush_batch_page_witness:
  "kafka_flush_batch example_defs 0 True (example_maps 1 1 0 1 0 None) = example_maps 1 1 0 1 0 None \<and>
   kafka_batch_events (kafka_flush_batch example_defs 0 False (example_maps 1 0 3 1 0 None)) = [] \<and>
   kafka_batches (kafka_flush_batch example_defs 0 False (example_maps 1 0 3 1 0 None))
      \<lparr>cpu = 0, page_num = 0\<rparr> = Some (example_page 0) \<and>
   kafka_batch_state (kafka_flush_batch example_defs 0 False (example_maps 1 0 3 1 0 None)) 0 =
      Some \<lparr>idx = 1, idx_to_flush = 1\<rparr> \<and>
   kafka_batch_events (kafka_flush_batch example_defs 0 True
      (kafka_flush_batch example_defs 0 True (example_maps 1 0 3 1 0 None))) = [(0, example_page 3)]"
proof -
  let ?b0 = "\<lparr>idx = 1, idx_to_flush = 1\<rparr>" and ?b1 = "\<lparr>idx = 1, idx_to_flush = 0\<rparr>"
  have h1: "kafka_batch_state (example_maps 1 1 0 1 0 None) 0 = Some ?b0 \<and>
      idx_to_flush ?b0 = idx ?b0"
    by (simp add: example_maps_def)
  have h2: "kafka_batch_state (example_maps 1 0 3 1 0 None) 0 = Some ?b1 \<and>
      idx_to_flush ?b1 \<noteq> idx ?b1 \<and>
      kafka_batches (example_maps 1 0 3 1 0 None)
        (kafka_get_batch_key example_defs 0 (idx_to_flush ?b1)) = Some (example_page 3)"
    by (simp add: example_keys example_maps_def)
  have h3: "kafka_batch_state (example_maps 1 0 3 1 0 None) 0 = Some ?b1 \<and>
      idx ?b1 = idx_to_flush ?b1 + 1 \<and>
      kafka_batches (example_maps 1 0 3 1 0 None)
        (kafka_get_batch_key example_defs 0 (idx_to_flush ?b1)) = Some (example_page 3)"
    by (simp add: example_keys example_maps_def)
  note noop = kafka_flush_batch_page [where s = "example_maps 1 1 0 1 0 None" and smp = 0
      and bs = ?b0 and c = example_defs and ok = True, THEN conjunct1, THEN mp, OF h1]
  note emit = kafka_flush_batch_page [where s = "example_maps 1 0 3 1 0 None" and smp = 0
      and bs = ?b1 and c = example_defs and ok = False and b = "example_page 3",
      THEN conjunct2, THEN conjunct1, THEN mp, OF h2]
  note twice = kafka_flush_batch_page [where s = "example_maps 1 0 3 1 0 None" and smp = 0
      and bs = ?b1 and c = example_defs and ok = True and ok' = True and b = "example_page 3",
      THEN conjunct2, THEN conjunct2, THEN mp, OF h3, THEN conjunct2]
  show ?thesis
    unfolding noop emit twice
    by (simp add: example_keys example_page_def) (simp add: example_maps_def)
qed

text \<open>
  With two full pages pending, two consecutive flushes export two records; with none
  pending they export none.
\<close>

theorem kafka_flush_batch_twice_counterexample:
  "length (kafka_batch_events (kafka_flush_batch example_defs 0 True
      (kafka_flush_batch example_defs 0 True (example_maps 2 0 3 3 0 None)))) = 2 \<and>
   length (kafka_batch_events (kafka_flush_batch example_defs 0 True
      (kafka_flush_batch example_defs 0 True (example_maps 0 0 0 0 0 None)))) = 0"
  by (simp add: kafka_flush_batch_def Let_def bpf_perf_event_output_def example_keys example_maps_def)

section \<open>Tuple Extractor\<close>

subsection \<open>Words\<close>



lemma ucast_u32_u64_eq_0: "(ucast (x::u32) :: u64) = 0 \<longleftrightarrow> x = 0"
proof
  assume z: "(ucast x :: u64) = 0"
  show "x = 0"
  proof (rule bit_word_eqI)
    fix n assume "n < LENGTH(32)"
    then have "bit x n = bit (ucast x :: u64) n" by (simp add: bit_simps)
    with z show "bit x n = bit (0::u32) n" by simp
  qed
qed simp

lemma mask_hi: "(0xFFFFFFFF00000000 :: u64) = NOT (mask 32)"
  by (simp add: mask_eq_exp_minus_1)

lemma mask_lo: "(0xFFFFFFFF :: u64) = mask 32"
  by (simp add: mask_eq_exp_minus_1)

lemma store_u32_join:
  "store_u32_1 (store_u32_0 x a) b = ucast a OR push_bit 32 (ucast b)"
  unfolding store_u32_0_def store_u32_1_def mask_hi mask_lo
  by (rule bit_word_eqI) (auto simp add: bit_simps dest: bit_imp_le_length)

lemma join_eq_0: "(ucast (a::u32) OR push_bit 32 (ucast (b::u32)) :: u64) = 0 \<longleftrightarrow> a = 0 \<and> b = 0"
proof
  assume z: "(ucast a OR push_bit 32 (ucast b) :: u64) = 0"
  then have "(ucast a :: u64) = 0" and pb: "(push_bit 32 (ucast b) :: u64) = 0"
    by (simp_all add: or_eq_0_iff)
  then have "a = 0" by (simp add: ucast_u32_u64_eq_0)
  moreover have "b = 0"
  proof (rule bit_word_eqI)
    fix n assume "n < LENGTH(32)"
    then have "bit b n = bit (push_bit 32 (ucast b) :: u64) (n + 32)"
      by (simp add: bit_simps)
    with pb show "bit b n = bit (0::u32) n" by simp
  qed
  ultimately show "a = 0 \<and> b = 0" by simp
qed simp

lemma join_drop: "drop_bit 32 (ucast (a::u32) OR push_bit 32 (ucast (b::u32)) :: u64) = ucast b"
  by (rule bit_word_eqI) (auto simp add: bit_simps dest: bit_imp_le_length)

lemma narrow_drop: "(ucast (ucast (drop_bit 32 (l::u64)) :: u32) :: u64) = drop_bit 32 l"
  by (rule bit_word_eqI) (auto simp add: bit_simps dest: bit_imp_le_length)

lemma drop_narrow: "drop_bit 32 (ucast (w::u32) :: u64) = 0"
  by (rule bit_word_eqI) (auto simp add: bit_simps dest: bit_imp_le_length)

lemma bpf_ntohs_eq_0: "bpf_ntohs x = 0 \<longleftrightarrow> x = 0"
proof
  assume "bpf_ntohs x = 0"
  then have a: "push_bit 8 x = 0" and b: "drop_bit 8 x = 0"
    by (simp_all add: bpf_ntohs_def or_eq_0_iff)
  show "x = 0"
  proof (rule bit_word_eqI)
    fix n assume n: "n < LENGTH(16)"
    show "bit x n = bit (0::u16) n"
    proof (cases "n < 8")
      case True
      then have "bit x n = bit (push_bit 8 x) (n + 8)" by (simp add: bit_simps)
      with a show ?thesis by simp
    next
      case False
      then have "bit x n = bit (drop_bit 8 x) (n - 8)" by (simp add: bit_simps)
      with b show ?thesis by simp
    qed
  qed
qed (simp add: bpf_ntohs_def)


subsection \<open>The function by address family\<close>

lemma read_v6_addrs_eq:
  "read_v6_addrs t skp =
     t\<lparr>saddr_h := (if saddr_h t = 0 \<and> saddr_l t = 0
                     then ucast (s6_addr32_0 (sk_v6_rcv_saddr skp)) OR
                          push_bit 32 (ucast (s6_addr32_1 (sk_v6_rcv_saddr skp)))
                     else saddr_h t),
        saddr_l := (if saddr_h t = 0 \<and> saddr_l t = 0
                     then ucast (s6_addr32_2 (sk_v6_rcv_saddr skp)) OR
                          push_bit 32 (ucast (s6_addr32_3 (sk_v6_rcv_saddr skp)))
                     else saddr_l t),
        daddr_h := (if daddr_h t = 0 \<and> daddr_l t = 0
                     then ucast (s6_addr32_0 (sk_v6_daddr skp)) OR
                          push_bit 32 (ucast (s6_addr32_1 (sk_v6_daddr skp)))
                     else daddr_h t),
        daddr_l := (if daddr_h t = 0 \<and> daddr_l t = 0
                     then ucast (s6_addr32_2 (sk_v6_daddr skp)) OR
                          push_bit 32 (ucast (s6_addr32_3 (sk_v6_daddr skp)))
                     else daddr_l t)\<rparr>"
proof (cases "saddr_h t = 0 \<and> saddr_l t = 0")
  case s: True
  show ?thesis
  proof (cases "daddr_h t = 0 \<and> daddr_l t = 0")
    case True
    with s show ?thesis by (auto simp add: read_v6_addrs_def store_u32_join Let_def)
  next
    case False
    with s show ?thesis by (auto simp add: read_v6_addrs_def store_u32_join Let_def)
  qed
next
  case s: False
  show ?thesis
  proof (cases "daddr_h t = 0 \<and> daddr_l t = 0")
    case True
    with s show ?thesis by (auto simp add: read_v6_addrs_def store_u32_join Let_def)
  next
    case False
    with s show ?thesis by (auto simp add: read_v6_addrs_def store_u32_join Let_def)
  qed
qed

lemma read_v6_addrs_upd:
  "read_v6_addrs (t\<lparr>pid := p, metadata := m, netns := n\<rparr>) skp =
     (read_v6_addrs t skp)\<lparr>pid := p, metadata := m, netns := n\<rparr>"
  by (simp add: read_v6_addrs_eq)

lemma read_v6_addrs_fields:
  "saddr_h (read_v6_addrs t skp) =
     (if saddr_h t = 0 \<and> saddr_l t = 0
      then ucast (s6_addr32_0 (sk_v6_rcv_saddr skp)) OR push_bit 32 (ucast (s6_addr32_1 (sk_v6_rcv_saddr skp)))
      else saddr_h t)"
  "saddr_l (read_v6_addrs t skp) =
     (if saddr_h t = 0 \<and> saddr_l t = 0
      then ucast (s6_addr32_2 (sk_v6_rcv_saddr skp)) OR push_bit 32 (ucast (s6_addr32_3 (sk_v6_rcv_saddr skp)))
      else saddr_l t)"
  "daddr_h (read_v6_addrs t skp) =
     (if daddr_h t = 0 \<and> daddr_l t = 0
      then ucast (s6_addr32_0 (sk_v6_daddr skp)) OR push_bit 32 (ucast (s6_addr32_1 (sk_v6_daddr skp)))
      else daddr_h t)"
  "daddr_l (read_v6_addrs t skp) =
     (if daddr_h t = 0 \<and> daddr_l t = 0
      then ucast (s6_addr32_2 (sk_v6_daddr skp)) OR push_bit 32 (ucast (s6_addr32_3 (sk_v6_daddr skp)))
      else daddr_l t)"
  "sport (read_v6_addrs t skp) = sport t"
  "dport (read_v6_addrs t skp) = dport t"
  "pid (read_v6_addrs t skp) = pid t"
  "netns (read_v6_addrs t skp) = netns t"
  "metadata (read_v6_addrs t skp) = metadata t"
  by (simp_all add: read_v6_addrs_eq)

text \<open>The address block on an IPv6 socket, in terms of the tuple after the reads.\<close>

lemma retrieve_addresses_v6:
  assumes "sk_family skp = AF_INET6" and "is_ipv6_enabled c"
  shows "retrieve_addresses c t skp =
     (if saddr_h (read_v6_addrs t skp) = 0 \<and> saddr_l (read_v6_addrs t skp) = 0
      then (False, read_v6_addrs t skp)
      else if daddr_h (read_v6_addrs t skp) = 0 \<and> daddr_l (read_v6_addrs t skp) = 0
      then (False, read_v6_addrs t skp)
      else if is_ipv4_mapped_ipv6 c (saddr_h (read_v6_addrs t skp)) (saddr_l (read_v6_addrs t skp))
                (daddr_h (read_v6_addrs t skp)) (daddr_l (read_v6_addrs t skp))
      then (True, (read_v6_addrs t skp)
              \<lparr>metadata := metadata t OR CONN_V4 c, saddr_h := 0, daddr_h := 0,
               saddr_l := drop_bit 32 (saddr_l (read_v6_addrs t skp)),
               daddr_l := drop_bit 32 (daddr_l (read_v6_addrs t skp))\<rparr>)
      else (True, (read_v6_addrs t skp)\<lparr>metadata := metadata t OR CONN_V6 c\<rparr>))"
  using assms
  by (simp add: retrieve_addresses_def check_family_def AF_INET_def AF_INET6_def Let_def
      narrow_drop read_v6_addrs_fields(9))

lemma read_sport_eq_0: "read_sport skp = 0 \<longleftrightarrow> sk_num skp = 0 \<and> inet_sport skp = 0"
  by (simp add: read_sport_def Let_def bpf_ntohs_eq_0)

lemma family_distinct: "AF_INET \<noteq> AF_INET6"
  by (simp add: AF_INET_def AF_INET6_def)

lemma retrieve_addresses_v4:
  assumes "sk_family skp = AF_INET"
  shows "retrieve_addresses c t skp =
     (if (saddr_l t = 0 \<and> sk_rcv_saddr skp = 0 \<and> inet_saddr skp = 0) \<or>
         (daddr_l t = 0 \<and> sk_daddr skp = 0) then False else True,
      t\<lparr>metadata := metadata t OR CONN_V4 c,
        saddr_l := (if saddr_l t \<noteq> 0 then saddr_l t
                    else if sk_rcv_saddr skp \<noteq> 0 then ucast (sk_rcv_saddr skp)
                    else ucast (inet_saddr skp)),
        daddr_l := (if daddr_l t \<noteq> 0 then daddr_l t else ucast (sk_daddr skp))\<rparr>)"
  using assms
  by (auto simp add: retrieve_addresses_def check_family_def Let_def ucast_u32_u64_eq_0)

lemma retrieve_addresses_other:
  assumes "sk_family skp \<noteq> AF_INET" and "sk_family skp \<noteq> AF_INET6 \<or> \<not> is_ipv6_enabled c"
  shows "retrieve_addresses c t skp = (False, t)"
  using assms by (auto simp add: retrieve_addresses_def check_family_def)

lemma retrieve_addresses_ports:
  "sport (snd (retrieve_addresses c t skp)) = sport t"
  "dport (snd (retrieve_addresses c t skp)) = dport t"
  by (simp_all add: retrieve_addresses_def Let_def read_v6_addrs_fields(5,6))

text \<open>The whole function, in terms of the outcome of the address block.\<close>

lemma read_conn_tuple_partial_eq:
  "read_conn_tuple_partial c t skp pid_tgid type =
     (case retrieve_addresses c
             (t\<lparr>pid := ucast (drop_bit 32 pid_tgid), metadata := type, netns := sk_net_ns_inum skp\<rparr>) skp of
        (False, t') \<Rightarrow> (0, t')
      | (True, t') \<Rightarrow>
          (if (sport t = 0 \<and> sk_num skp = 0 \<and> inet_sport skp = 0) \<or> (dport t = 0 \<and> sk_dport skp = 0)
           then 0 else 1,
           t'\<lparr>sport := (if sport t = 0 then read_sport skp else sport t),
              dport := (if dport t = 0 then bpf_ntohs (sk_dport skp) else dport t)\<rparr>))"
proof -
  let ?t0 = "t\<lparr>pid := ucast (drop_bit 32 pid_tgid), metadata := type, netns := sk_net_ns_inum skp\<rparr>"
  obtain ok t' where r: "retrieve_addresses c ?t0 skp = (ok, t')"
    by (cases "retrieve_addresses c ?t0 skp")
  have ports: "sport t' = sport t" "dport t' = dport t"
    using retrieve_addresses_ports [of c ?t0 skp] r by simp_all
  show ?thesis
    using r ports
    by (cases ok)
      (auto simp add: read_conn_tuple_partial_def get_netns_from_sock_def Let_def
        read_sport_eq_0 bpf_ntohs_eq_0)
qed


lemma drop_drop: "drop_bit 32 (drop_bit 32 (l::u64)) = 0"
  by (metis narrow_drop drop_narrow)

subsection \<open>Failure\<close>

text \<open>
  C8, as the code has it. Extraction from a socket returns 0 or 1. It returns 0 exactly when
  the family is neither v4 nor v6, or the family is v6 while IPv6 inspection is disabled,
  or an address is still zero after the fallback reads (on a v4 socket the lower half, on a
  v6 socket both halves), or a port is still zero after them. On a socket of an
  unsupported family, and on a v6 socket while IPv6 is disabled, the addresses and the
  ports of the tuple are left as they were; the process id, the metadata and the
  namespace id are written before the family is looked at.
\<close>

theorem read_conn_tuple_partial_failure:
  "(fst (read_conn_tuple_partial c t skp pid_tgid type) = 0 \<or>
    fst (read_conn_tuple_partial c t skp pid_tgid type) = 1) \<and>
   (fst (read_conn_tuple_partial c t skp pid_tgid type) = 0 \<longleftrightarrow>
      (sk_family skp \<noteq> AF_INET \<and> sk_family skp \<noteq> AF_INET6) \<or>
      (sk_family skp = AF_INET6 \<and> \<not> is_ipv6_enabled c) \<or>
      (sk_family skp = AF_INET \<and>
         ((saddr_l t = 0 \<and> sk_rcv_saddr skp = 0 \<and> inet_saddr skp = 0) \<or>
          (daddr_l t = 0 \<and> sk_daddr skp = 0))) \<or>
      (sk_family skp = AF_INET6 \<and>
         ((saddr_h t = 0 \<and> saddr_l t = 0 \<and>
           s6_addr32_0 (sk_v6_rcv_saddr skp) = 0 \<and> s6_addr32_1 (sk_v6_rcv_saddr skp) = 0 \<and>
           s6_addr32_2 (sk_v6_rcv_saddr skp) = 0 \<and> s6_addr32_3 (sk_v6_rcv_saddr skp) = 0) \<or>
          (daddr_h t = 0 \<and> daddr_l t = 0 \<and>
           s6_addr32_0 (sk_v6_daddr skp) = 0 \<and> s6_addr32_1 (sk_v6_daddr skp) = 0 \<and>
           s6_addr32_2 (sk_v6_daddr skp) = 0 \<and> s6_addr32_3 (sk_v6_daddr skp) = 0))) \<or>
      (sport t = 0 \<and> sk_num skp = 0 \<and> inet_sport skp = 0) \<or>
      (dport t = 0 \<and> sk_dport skp = 0)) \<and>
   ((sk_family skp \<noteq> AF_INET \<and> sk_family skp \<noteq> AF_INET6) \<or>
    (sk_family skp = AF_INET6 \<and> \<not> is_ipv6_enabled c) \<longrightarrow>
      read_conn_tuple_partial c t skp pid_tgid type =
        (0, t\<lparr>pid := ucast (drop_bit 32 pid_tgid), metadata := type,
              netns := sk_net_ns_inum skp\<rparr>))"
proof -
  let ?t0 = "t\<lparr>pid := ucast (drop_bit 32 pid_tgid), metadata := type, netns := sk_net_ns_inum skp\<rparr>"
  consider (v4) "sk_family skp = AF_INET"
    | (v6) "sk_family skp = AF_INET6" "is_ipv6_enabled c"
    | (other) "sk_family skp \<noteq> AF_INET" "sk_family skp \<noteq> AF_INET6 \<or> \<not> is_ipv6_enabled c"
    by blast
  then show ?thesis
  proof cases
    case v4
    then show ?thesis
      using family_distinct
      by (simp add: read_conn_tuple_partial_eq retrieve_addresses_v4)
  next
    case v6
    have z: "(saddr_h (read_v6_addrs ?t0 skp) = 0 \<and> saddr_l (read_v6_addrs ?t0 skp) = 0) =
        (saddr_h t = 0 \<and> saddr_l t = 0 \<and>
           s6_addr32_0 (sk_v6_rcv_saddr skp) = 0 \<and> s6_addr32_1 (sk_v6_rcv_saddr skp) = 0 \<and>
           s6_addr32_2 (sk_v6_rcv_saddr skp) = 0 \<and> s6_addr32_3 (sk_v6_rcv_saddr skp) = 0)"
      "(daddr_h (read_v6_addrs ?t0 skp) = 0 \<and> daddr_l (read_v6_addrs ?t0 skp) = 0) =
        (daddr_h t = 0 \<and> daddr_l t = 0 \<and>
           s6_addr32_0 (sk_v6_daddr skp) = 0 \<and> s6_addr32_1 (sk_v6_daddr skp) = 0 \<and>
           s6_addr32_2 (sk_v6_daddr skp) = 0 \<and> s6_addr32_3 (sk_v6_daddr skp) = 0)"
      by (auto simp add: read_v6_addrs_fields join_eq_0)
    from v6 family_distinct have ne: "sk_family skp \<noteq> AF_INET" by simp
    show ?thesis
      using v6 ne
      unfolding read_conn_tuple_partial_eq retrieve_addresses_v6 [OF v6] z
      by (simp split: if_splits)
  next
    case other
    then show ?thesis
      by (auto simp add: read_conn_tuple_partial_eq retrieve_addresses_other)
  qed
qed

theorem read_conn_tuple_partial_failure_witness:
  "read_conn_tuple_partial example_defs conn_tuple_zero example_sock_unix 0x700000001 1 =
     (0, conn_tuple_zero\<lparr>pid := 7, metadata := 1, netns := 4026531840\<rparr>) \<and>
   fst (read_conn_tuple_partial example_defs conn_tuple_zero example_sock4 0x700000001 1) = 1 \<and>
   fst (read_conn_tuple_partial example_defs conn_tuple_zero (example_sock4\<lparr>sk_dport := 0\<rparr>)
          0x700000001 1) = 0"
proof -
  have u: "(sk_family example_sock_unix \<noteq> AF_INET \<and> sk_family example_sock_unix \<noteq> AF_INET6) \<or>
      (sk_family example_sock_unix = AF_INET6 \<and> \<not> is_ipv6_enabled example_defs)"
    by (simp add: example_sock_unix_def example_sock4_def AF_INET_def AF_INET6_def)
  note unsupported = read_conn_tuple_partial_failure [where c = example_defs and t = conn_tuple_zero
      and skp = example_sock_unix and pid_tgid = "0x700000001" and type = 1,
      THEN conjunct2, THEN conjunct2, THEN mp, OF u]
  note ok = read_conn_tuple_partial_failure [where c = example_defs and t = conn_tuple_zero
      and skp = example_sock4 and pid_tgid = "0x700000001" and type = 1]
  note noport = read_conn_tuple_partial_failure [where c = example_defs and t = conn_tuple_zero
      and skp = "example_sock4\<lparr>sk_dport := 0\<rparr>" and pid_tgid = "0x700000001" and type = 1,
      THEN conjunct2, THEN conjunct1]
  have a: "read_conn_tuple_partial example_defs conn_tuple_zero example_sock_unix 0x700000001 1 =
     (0, conn_tuple_zero\<lparr>pid := 7, metadata := 1, netns := 4026531840\<rparr>)"
    unfolding unsupported by (simp add: example_sock_unix_def example_sock4_def)
  have b: "fst (read_conn_tuple_partial example_defs conn_tuple_zero example_sock4 0x700000001 1) = 1"
    using ok by (auto simp add: example_sock4_def conn_tuple_zero_def AF_INET_def AF_INET6_def)
  have c: "fst (read_conn_tuple_partial example_defs conn_tuple_zero (example_sock4\<lparr>sk_dport := 0\<rparr>)
          0x700000001 1) = 0"
    unfolding noport by (simp add: example_sock4_def conn_tuple_zero_def AF_INET_def AF_INET6_def)
  from a b c show ?thesis by blast
qed

text \<open>
  On a socket of family 1 the extraction fails, and the process id of the zeroed tuple
  has become 7.
\<close>

theorem read_conn_tuple_partial_unsupported_counterexample:
  "fst (read_conn_tuple_partial example_defs conn_tuple_zero example_sock_unix 0x700000001 1) = 0 \<and>
   pid conn_tuple_zero = 0 \<and>
   pid (snd (read_conn_tuple_partial example_defs conn_tuple_zero example_sock_unix 0x700000001 1)) = 7 \<and>
   snd (read_conn_tuple_partial example_defs conn_tuple_zero example_sock_unix 0x700000001 1) \<noteq>
     conn_tuple_zero"
  by (simp add: read_conn_tuple_partial_def retrieve_addresses_def check_family_def
      get_netns_from_sock_def example_sock_unix_def example_sock4_def conn_tuple_zero_def
      AF_INET_def AF_INET6_def)


subsection \<open>IPv4-mapped addresses\<close>

text \<open>
  C3. \<open>t6\<close> is the tuple after the address reads of an IPv6 socket: an address set on
  entry is kept, an unset one is the socket's. When both addresses are set and the pair
  is recognized as IPv4-mapped, the tuple that extraction leaves has both upper halves
  zero, each lower half equal to the last 32-bit word of the address (bits 32 to 63 of
  the lower half before, the embedded IPv4 address; bits 32 to 63 after are zero), and
  the metadata equal to the caller's type with \<open>CONN_V4\<close> set, \<open>CONN_V6\<close> not being
  added. For an address read from the socket the lower half is the word
  \<open>s6_addr32[3]\<close>. Extraction from an IPv6 route descriptor does the same with the
  halves that \<open>read_in6_addr\<close> delivers.
\<close>

theorem ipv4_mapped_canonical:
  "(sk_family skp = AF_INET6 \<and> is_ipv6_enabled c \<and> t6 = read_v6_addrs t skp \<and>
    (saddr_h t6 \<noteq> 0 \<or> saddr_l t6 \<noteq> 0) \<and> (daddr_h t6 \<noteq> 0 \<or> daddr_l t6 \<noteq> 0) \<and>
    is_ipv4_mapped_ipv6 c (saddr_h t6) (saddr_l t6) (daddr_h t6) (daddr_l t6) \<and>
    t' = snd (read_conn_tuple_partial c t skp pid_tgid type) \<longrightarrow>
      saddr_h t' = 0 \<and> daddr_h t' = 0 \<and>
      saddr_l t' = drop_bit 32 (saddr_l t6) \<and> daddr_l t' = drop_bit 32 (daddr_l t6) \<and>
      drop_bit 32 (saddr_l t') = 0 \<and> drop_bit 32 (daddr_l t') = 0 \<and>
      (saddr_h t = 0 \<and> saddr_l t = 0 \<longrightarrow>
         saddr_l t' = ucast (s6_addr32_3 (sk_v6_rcv_saddr skp))) \<and>
      (daddr_h t = 0 \<and> daddr_l t = 0 \<longrightarrow>
         daddr_l t' = ucast (s6_addr32_3 (sk_v6_daddr skp))) \<and>
      metadata t' = type OR CONN_V4 c) \<and>
   (read_in6_addr c (saddr_h t) (saddr_l t) (fl6_saddr fl6) = (sh, sl) \<and>
    read_in6_addr c (daddr_h t) (daddr_l t) (fl6_daddr fl6) = (dh, dl) \<and>
    (sh \<noteq> 0 \<or> sl \<noteq> 0) \<and> (dh \<noteq> 0 \<or> dl \<noteq> 0) \<and>
    is_ipv4_mapped_ipv6 c sh sl dh dl \<and>
    u' = snd (read_conn_tuple_partial_from_flowi6 c t fl6 pid_tgid type) \<longrightarrow>
      saddr_h u' = 0 \<and> daddr_h u' = 0 \<and>
      saddr_l u' = drop_bit 32 sl \<and> daddr_l u' = drop_bit 32 dl \<and>
      drop_bit 32 (saddr_l u') = 0 \<and> drop_bit 32 (daddr_l u') = 0 \<and>
      metadata u' = type OR CONN_V4 c)"
proof (intro conjI impI)
  assume h: "sk_family skp = AF_INET6 \<and> is_ipv6_enabled c \<and> t6 = read_v6_addrs t skp \<and>
    (saddr_h t6 \<noteq> 0 \<or> saddr_l t6 \<noteq> 0) \<and> (daddr_h t6 \<noteq> 0 \<or> daddr_l t6 \<noteq> 0) \<and>
    is_ipv4_mapped_ipv6 c (saddr_h t6) (saddr_l t6) (daddr_h t6) (daddr_l t6) \<and>
    t' = snd (read_conn_tuple_partial c t skp pid_tgid type)"
  let ?t0 = "t\<lparr>pid := ucast (drop_bit 32 pid_tgid), metadata := type, netns := sk_net_ns_inum skp\<rparr>"
  from h have v6: "sk_family skp = AF_INET6" "is_ipv6_enabled c" by simp_all
  have t0: "read_v6_addrs ?t0 skp = t6\<lparr>pid := ucast (drop_bit 32 pid_tgid), metadata := type,
      netns := sk_net_ns_inum skp\<rparr>"
    using h by (simp add: read_v6_addrs_upd)
  have ra: "retrieve_addresses c ?t0 skp =
      (True, t6\<lparr>pid := ucast (drop_bit 32 pid_tgid), netns := sk_net_ns_inum skp,
                metadata := type OR CONN_V4 c, saddr_h := 0, daddr_h := 0,
                saddr_l := drop_bit 32 (saddr_l t6), daddr_l := drop_bit 32 (daddr_l t6)\<rparr>)"
    unfolding retrieve_addresses_v6 [OF v6] t0 using h by auto
  have t': "t' = t6\<lparr>pid := ucast (drop_bit 32 pid_tgid), netns := sk_net_ns_inum skp,
                metadata := type OR CONN_V4 c, saddr_h := 0, daddr_h := 0,
                saddr_l := drop_bit 32 (saddr_l t6), daddr_l := drop_bit 32 (daddr_l t6),
                sport := (if sport t = 0 then read_sport skp else sport t),
                dport := (if dport t = 0 then bpf_ntohs (sk_dport skp) else dport t)\<rparr>"
    using h unfolding read_conn_tuple_partial_eq ra by simp
  show "saddr_h t' = 0" "daddr_h t' = 0" "saddr_l t' = drop_bit 32 (saddr_l t6)"
    "daddr_l t' = drop_bit 32 (daddr_l t6)" "metadata t' = type OR CONN_V4 c"
    by (simp_all add: t')
  show "drop_bit 32 (saddr_l t') = 0" "drop_bit 32 (daddr_l t') = 0"
    by (simp_all add: t' drop_drop)
  {
    assume "saddr_h t = 0 \<and> saddr_l t = 0"
    with h have "saddr_l t6 = ucast (s6_addr32_2 (sk_v6_rcv_saddr skp)) OR
        push_bit 32 (ucast (s6_addr32_3 (sk_v6_rcv_saddr skp)))"
      by (simp add: read_v6_addrs_fields)
    then have "drop_bit 32 (saddr_l t6) = ucast (s6_addr32_3 (sk_v6_rcv_saddr skp))"
      by (simp only: join_drop)
    with \<open>saddr_l t' = drop_bit 32 (saddr_l t6)\<close>
    show "saddr_l t' = ucast (s6_addr32_3 (sk_v6_rcv_saddr skp))" by simp
  }
  {
    assume "daddr_h t = 0 \<and> daddr_l t = 0"
    with h have "daddr_l t6 = ucast (s6_addr32_2 (sk_v6_daddr skp)) OR
        push_bit 32 (ucast (s6_addr32_3 (sk_v6_daddr skp)))"
      by (simp add: read_v6_addrs_fields)
    then have "drop_bit 32 (daddr_l t6) = ucast (s6_addr32_3 (sk_v6_daddr skp))"
      by (simp only: join_drop)
    with \<open>daddr_l t' = drop_bit 32 (daddr_l t6)\<close>
    show "daddr_l t' = ucast (s6_addr32_3 (sk_v6_daddr skp))" by simp
  }
next
  assume h: "read_in6_addr c (saddr_h t) (saddr_l t) (fl6_saddr fl6) = (sh, sl) \<and>
    read_in6_addr c (daddr_h t) (daddr_l t) (fl6_daddr fl6) = (dh, dl) \<and>
    (sh \<noteq> 0 \<or> sl \<noteq> 0) \<and> (dh \<noteq> 0 \<or> dl \<noteq> 0) \<and>
    is_ipv4_mapped_ipv6 c sh sl dh dl \<and>
    u' = snd (read_conn_tuple_partial_from_flowi6 c t fl6 pid_tgid type)"
  then have u: "saddr_h u' = 0 \<and> daddr_h u' = 0 \<and>
      saddr_l u' = drop_bit 32 sl \<and> daddr_l u' = drop_bit 32 dl \<and>
      metadata u' = type OR CONN_V4 c"
    by (auto simp add: read_conn_tuple_partial_from_flowi6_def Let_def narrow_drop)
  then show "saddr_h u' = 0" "daddr_h u' = 0" "saddr_l u' = drop_bit 32 sl"
    "daddr_l u' = drop_bit 32 dl" "metadata u' = type OR CONN_V4 c"
    by simp_all
  from u show "drop_bit 32 (saddr_l u') = 0" "drop_bit 32 (daddr_l u') = 0"
    by (simp_all add: drop_drop)
qed


lemma example_mapped_reads:
  "saddr_h (read_v6_addrs conn_tuple_zero example_sock_mapped) = 0"
  "saddr_l (read_v6_addrs conn_tuple_zero example_sock_mapped) = 0x0100000AFFFF0000"
  "daddr_h (read_v6_addrs conn_tuple_zero example_sock_mapped) = 0"
  "daddr_l (read_v6_addrs conn_tuple_zero example_sock_mapped) = 0x0200000AFFFF0000"
  by (simp_all add: read_v6_addrs_fields conn_tuple_zero_def example_sock_mapped_def)

theorem ipv4_mapped_canonical_witness:
  "saddr_h (snd (read_conn_tuple_partial example_defs conn_tuple_zero example_sock_mapped
      0x700000001 1)) = 0 \<and>
   saddr_l (snd (read_conn_tuple_partial example_defs conn_tuple_zero example_sock_mapped
      0x700000001 1)) = 0x0100000A \<and>
   daddr_h (snd (read_conn_tuple_partial example_defs conn_tuple_zero example_sock_mapped
      0x700000001 1)) = 0 \<and>
   daddr_l (snd (read_conn_tuple_partial example_defs conn_tuple_zero example_sock_mapped
      0x700000001 1)) = 0x0200000A \<and>
   metadata (snd (read_conn_tuple_partial example_defs conn_tuple_zero example_sock_mapped
      0x700000001 1)) = 1 \<and>
   saddr_h (snd (read_conn_tuple_partial_from_flowi6 example_defs conn_tuple_zero
      example_flowi6_mapped 0x700000001 1)) = 0 \<and>
   saddr_l (snd (read_conn_tuple_partial_from_flowi6 example_defs conn_tuple_zero
      example_flowi6_mapped 0x700000001 1)) = 0x0100000A \<and>
   daddr_l (snd (read_conn_tuple_partial_from_flowi6 example_defs conn_tuple_zero
      example_flowi6_mapped 0x700000001 1)) = 0x0200000A \<and>
   metadata (snd (read_conn_tuple_partial_from_flowi6 example_defs conn_tuple_zero
      example_flowi6_mapped 0x700000001 1)) = 1"
proof -
  let ?t6 = "read_v6_addrs conn_tuple_zero example_sock_mapped"
  let ?t' = "snd (read_conn_tuple_partial example_defs conn_tuple_zero example_sock_mapped
      0x700000001 1)"
  let ?u' = "snd (read_conn_tuple_partial_from_flowi6 example_defs conn_tuple_zero
      example_flowi6_mapped 0x700000001 1)"
  have h1: "sk_family example_sock_mapped = AF_INET6 \<and> is_ipv6_enabled example_defs \<and>
      ?t6 = read_v6_addrs conn_tuple_zero example_sock_mapped \<and>
      (saddr_h ?t6 \<noteq> 0 \<or> saddr_l ?t6 \<noteq> 0) \<and> (daddr_h ?t6 \<noteq> 0 \<or> daddr_l ?t6 \<noteq> 0) \<and>
      is_ipv4_mapped_ipv6 example_defs (saddr_h ?t6) (saddr_l ?t6) (daddr_h ?t6) (daddr_l ?t6) \<and>
      ?t' = snd (read_conn_tuple_partial example_defs conn_tuple_zero example_sock_mapped
        0x700000001 1)"
    unfolding example_mapped_reads
    by (simp add: example_sock_mapped_def AF_INET6_def is_ipv6_enabled_def example_defs_def)
  have h2: "read_in6_addr example_defs (saddr_h conn_tuple_zero) (saddr_l conn_tuple_zero)
        (fl6_saddr example_flowi6_mapped) = (0, 0x0100000AFFFF0000) \<and>
      read_in6_addr example_defs (daddr_h conn_tuple_zero) (daddr_l conn_tuple_zero)
        (fl6_daddr example_flowi6_mapped) = (0, 0x0200000AFFFF0000) \<and>
      ((0::u64) \<noteq> 0 \<or> (0x0100000AFFFF0000::u64) \<noteq> 0) \<and>
      ((0::u64) \<noteq> 0 \<or> (0x0200000AFFFF0000::u64) \<noteq> 0) \<and>
      is_ipv4_mapped_ipv6 example_defs 0 0x0100000AFFFF0000 0 0x0200000AFFFF0000 \<and>
      ?u' = snd (read_conn_tuple_partial_from_flowi6 example_defs conn_tuple_zero
        example_flowi6_mapped 0x700000001 1)"
    by (simp add: example_defs_def example_flowi6_mapped_def example_sock_mapped_def)
  note sock = ipv4_mapped_canonical [where skp = example_sock_mapped and c = example_defs
      and ?t6.0 = ?t6 and t = conn_tuple_zero and t' = ?t' and pid_tgid = "0x700000001" and type = 1,
      THEN conjunct1, THEN mp, OF h1]
  note flow = ipv4_mapped_canonical [where c = example_defs and t = conn_tuple_zero
      and ?fl6.0 = example_flowi6_mapped and sh = 0 and sl = "0x0100000AFFFF0000" and dh = 0
      and dl = "0x0200000AFFFF0000" and u' = ?u' and pid_tgid = "0x700000001" and type = 1,
      THEN conjunct2, THEN mp, OF h2]
  show ?thesis
    using sock flow unfolding example_mapped_reads
    by (simp add: example_defs_def)
qed

subsection \<open>Resolved flows\<close>

lemma read_conn_tuple_partial_from_flowi4_ok:
  assumes "fl4_saddr fl4 \<noteq> 0" and "fl4_daddr fl4 \<noteq> 0"
    and "fl4_sport fl4 \<noteq> 0" and "fl4_dport fl4 \<noteq> 0"
  shows "read_conn_tuple_partial_from_flowi4 c t fl4 pid_tgid type =
           (1, t\<lparr>pid := ucast (drop_bit 32 pid_tgid), metadata := type,
                 saddr_l := ucast (fl4_saddr fl4), daddr_l := ucast (fl4_daddr fl4),
                 sport := bpf_ntohs (fl4_sport fl4), dport := bpf_ntohs (fl4_dport fl4)\<rparr>)"
  using assms
  by (simp add: read_conn_tuple_partial_from_flowi4_def Let_def ucast_u32_u64_eq_0)

lemma word_or_absorb:
  fixes x m :: "'a::len word"
  shows "x AND m = m \<Longrightarrow> x OR m = x"
proof -
  assume "x AND m = m"
  then have "x OR m = x OR (x AND m)" by simp
  also have "\<dots> = x" by (rule bit_word_eqI) (auto simp add: bit_simps)
  finally show ?thesis .
qed

text \<open>
  C7, as the code has it. A flow is resolved when the fallback chains deliver nonzero
  addresses and ports; for a pair recognized as IPv4-mapped the addresses meant are the
  embedded IPv4 addresses, bits 32 to 63 of the lower halves. \<open>t6\<close> is the tuple after the
  address reads of an IPv6 socket. For a resolved flow, extraction from an IPv4 socket,
  from an IPv6 socket while IPv6 inspection is enabled, from an IPv4 route descriptor
  and from an IPv6 route descriptor returns 1 and leaves both addresses and both ports
  nonzero and the metadata equal to the caller's type with the family mask set:
  \<open>CONN_V4\<close> for IPv4 and for a pair recognized as IPv4-mapped, \<open>CONN_V6\<close> otherwise. The
  IPv4 route descriptor adds no mask of its own: its mask is the one the caller's type
  carries, which is every type when \<open>CONN_V4\<close> is the empty mask.
\<close>

theorem read_conn_tuple_resolved:
  "(sk_family skp = AF_INET \<and>
    (saddr_l t \<noteq> 0 \<or> sk_rcv_saddr skp \<noteq> 0 \<or> inet_saddr skp \<noteq> 0) \<and>
    (daddr_l t \<noteq> 0 \<or> sk_daddr skp \<noteq> 0) \<and>
    (sport t \<noteq> 0 \<or> sk_num skp \<noteq> 0 \<or> inet_sport skp \<noteq> 0) \<and>
    (dport t \<noteq> 0 \<or> sk_dport skp \<noteq> 0) \<and>
    t' = snd (read_conn_tuple_partial c t skp pid_tgid type) \<longrightarrow>
      fst (read_conn_tuple_partial c t skp pid_tgid type) = 1 \<and>
      saddr_l t' \<noteq> 0 \<and> daddr_l t' \<noteq> 0 \<and> sport t' \<noteq> 0 \<and> dport t' \<noteq> 0 \<and>
      metadata t' = type OR CONN_V4 c) \<and>
   (sk_family skp = AF_INET6 \<and> is_ipv6_enabled c \<and> t6 = read_v6_addrs t skp \<and>
    (saddr_h t6 \<noteq> 0 \<or> saddr_l t6 \<noteq> 0) \<and> (daddr_h t6 \<noteq> 0 \<or> daddr_l t6 \<noteq> 0) \<and>
    (is_ipv4_mapped_ipv6 c (saddr_h t6) (saddr_l t6) (daddr_h t6) (daddr_l t6) \<longrightarrow>
       drop_bit 32 (saddr_l t6) \<noteq> 0 \<and> drop_bit 32 (daddr_l t6) \<noteq> 0) \<and>
    (sport t \<noteq> 0 \<or> sk_num skp \<noteq> 0 \<or> inet_sport skp \<noteq> 0) \<and>
    (dport t \<noteq> 0 \<or> sk_dport skp \<noteq> 0) \<and>
    t' = snd (read_conn_tuple_partial c t skp pid_tgid type) \<longrightarrow>
      fst (read_conn_tuple_partial c t skp pid_tgid type) = 1 \<and>
      (saddr_h t' \<noteq> 0 \<or> saddr_l t' \<noteq> 0) \<and> (daddr_h t' \<noteq> 0 \<or> daddr_l t' \<noteq> 0) \<and>
      sport t' \<noteq> 0 \<and> dport t' \<noteq> 0 \<and>
      metadata t' =
        type OR (if is_ipv4_mapped_ipv6 c (saddr_h t6) (saddr_l t6) (daddr_h t6) (daddr_l t6)
                 then CONN_V4 c else CONN_V6 c)) \<and>
   (fl4_saddr fl4 \<noteq> 0 \<and> fl4_daddr fl4 \<noteq> 0 \<and> fl4_sport fl4 \<noteq> 0 \<and> fl4_dport fl4 \<noteq> 0 \<and>
    type AND CONN_V4 c = CONN_V4 c \<and>
    u' = snd (read_conn_tuple_partial_from_flowi4 c t fl4 pid_tgid type) \<longrightarrow>
      fst (read_conn_tuple_partial_from_flowi4 c t fl4 pid_tgid type) = 1 \<and>
      saddr_l u' \<noteq> 0 \<and> daddr_l u' \<noteq> 0 \<and> sport u' \<noteq> 0 \<and> dport u' \<noteq> 0 \<and>
      metadata u' = type OR CONN_V4 c) \<and>
   (read_in6_addr c (saddr_h t) (saddr_l t) (fl6_saddr fl6) = (sh, sl) \<and>
    read_in6_addr c (daddr_h t) (daddr_l t) (fl6_daddr fl6) = (dh, dl) \<and>
    (sh \<noteq> 0 \<or> sl \<noteq> 0) \<and> (dh \<noteq> 0 \<or> dl \<noteq> 0) \<and>
    (is_ipv4_mapped_ipv6 c sh sl dh dl \<longrightarrow> drop_bit 32 sl \<noteq> 0 \<and> drop_bit 32 dl \<noteq> 0) \<and>
    fl6_sport fl6 \<noteq> 0 \<and> fl6_dport fl6 \<noteq> 0 \<and>
    w' = snd (read_conn_tuple_partial_from_flowi6 c t fl6 pid_tgid type) \<longrightarrow>
      fst (read_conn_tuple_partial_from_flowi6 c t fl6 pid_tgid type) = 1 \<and>
      (saddr_h w' \<noteq> 0 \<or> saddr_l w' \<noteq> 0) \<and> (daddr_h w' \<noteq> 0 \<or> daddr_l w' \<noteq> 0) \<and>
      sport w' \<noteq> 0 \<and> dport w' \<noteq> 0 \<and>
      metadata w' =
        type OR (if is_ipv4_mapped_ipv6 c sh sl dh dl then CONN_V4 c else CONN_V6 c))"
proof -
  have v4: "sk_family skp = AF_INET \<and>
    (saddr_l t \<noteq> 0 \<or> sk_rcv_saddr skp \<noteq> 0 \<or> inet_saddr skp \<noteq> 0) \<and>
    (daddr_l t \<noteq> 0 \<or> sk_daddr skp \<noteq> 0) \<and>
    (sport t \<noteq> 0 \<or> sk_num skp \<noteq> 0 \<or> inet_sport skp \<noteq> 0) \<and>
    (dport t \<noteq> 0 \<or> sk_dport skp \<noteq> 0) \<and>
    t' = snd (read_conn_tuple_partial c t skp pid_tgid type) \<longrightarrow>
      fst (read_conn_tuple_partial c t skp pid_tgid type) = 1 \<and>
      saddr_l t' \<noteq> 0 \<and> daddr_l t' \<noteq> 0 \<and> sport t' \<noteq> 0 \<and> dport t' \<noteq> 0 \<and>
      metadata t' = type OR CONN_V4 c"
  proof
    assume h: "sk_family skp = AF_INET \<and>
      (saddr_l t \<noteq> 0 \<or> sk_rcv_saddr skp \<noteq> 0 \<or> inet_saddr skp \<noteq> 0) \<and>
      (daddr_l t \<noteq> 0 \<or> sk_daddr skp \<noteq> 0) \<and>
      (sport t \<noteq> 0 \<or> sk_num skp \<noteq> 0 \<or> inet_sport skp \<noteq> 0) \<and>
      (dport t \<noteq> 0 \<or> sk_dport skp \<noteq> 0) \<and>
      t' = snd (read_conn_tuple_partial c t skp pid_tgid type)"
    then have f: "sk_family skp = AF_INET" by simp
    show "fst (read_conn_tuple_partial c t skp pid_tgid type) = 1 \<and>
      saddr_l t' \<noteq> 0 \<and> daddr_l t' \<noteq> 0 \<and> sport t' \<noteq> 0 \<and> dport t' \<noteq> 0 \<and>
      metadata t' = type OR CONN_V4 c"
      using h unfolding read_conn_tuple_partial_eq retrieve_addresses_v4 [OF f]
      by (auto simp add: ucast_u32_u64_eq_0 read_sport_eq_0 bpf_ntohs_eq_0)
  qed
  have v6: "sk_family skp = AF_INET6 \<and> is_ipv6_enabled c \<and> t6 = read_v6_addrs t skp \<and>
    (saddr_h t6 \<noteq> 0 \<or> saddr_l t6 \<noteq> 0) \<and> (daddr_h t6 \<noteq> 0 \<or> daddr_l t6 \<noteq> 0) \<and>
    (is_ipv4_mapped_ipv6 c (saddr_h t6) (saddr_l t6) (daddr_h t6) (daddr_l t6) \<longrightarrow>
       drop_bit 32 (saddr_l t6) \<noteq> 0 \<and> drop_bit 32 (daddr_l t6) \<noteq> 0) \<and>
    (sport t \<noteq> 0 \<or> sk_num skp \<noteq> 0 \<or> inet_sport skp \<noteq> 0) \<and>
    (dport t \<noteq> 0 \<or> sk_dport skp \<noteq> 0) \<and>
    t' = snd (read_conn_tuple_partial c t skp pid_tgid type) \<longrightarrow>
      fst (read_conn_tuple_partial c t skp pid_tgid type) = 1 \<and>
      (saddr_h t' \<noteq> 0 \<or> saddr_l t' \<noteq> 0) \<and> (daddr_h t' \<noteq> 0 \<or> daddr_l t' \<noteq> 0) \<and>
      sport t' \<noteq> 0 \<and> dport t' \<noteq> 0 \<and>
      metadata t' =
        type OR (if is_ipv4_mapped_ipv6 c (saddr_h t6) (saddr_l t6) (daddr_h t6) (daddr_l t6)
                 then CONN_V4 c else CONN_V6 c)"
  proof
    assume h: "sk_family skp = AF_INET6 \<and> is_ipv6_enabled c \<and> t6 = read_v6_addrs t skp \<and>
      (saddr_h t6 \<noteq> 0 \<or> saddr_l t6 \<noteq> 0) \<and> (daddr_h t6 \<noteq> 0 \<or> daddr_l t6 \<noteq> 0) \<and>
      (is_ipv4_mapped_ipv6 c (saddr_h t6) (saddr_l t6) (daddr_h t6) (daddr_l t6) \<longrightarrow>
         drop_bit 32 (saddr_l t6) \<noteq> 0 \<and> drop_bit 32 (daddr_l t6) \<noteq> 0) \<and>
      (sport t \<noteq> 0 \<or> sk_num skp \<noteq> 0 \<or> inet_sport skp \<noteq> 0) \<and>
      (dport t \<noteq> 0 \<or> sk_dport skp \<noteq> 0) \<and>
      t' = snd (read_conn_tuple_partial c t skp pid_tgid type)"
    let ?t0 = "t\<lparr>pid := ucast (drop_bit 32 pid_tgid), metadata := type, netns := sk_net_ns_inum skp\<rparr>"
    from h have f: "sk_family skp = AF_INET6" "is_ipv6_enabled c" by simp_all
    have t0: "read_v6_addrs ?t0 skp = t6\<lparr>pid := ucast (drop_bit 32 pid_tgid), metadata := type,
        netns := sk_net_ns_inum skp\<rparr>"
      using h by (simp add: read_v6_addrs_upd)
    show "fst (read_conn_tuple_partial c t skp pid_tgid type) = 1 \<and>
      (saddr_h t' \<noteq> 0 \<or> saddr_l t' \<noteq> 0) \<and> (daddr_h t' \<noteq> 0 \<or> daddr_l t' \<noteq> 0) \<and>
      sport t' \<noteq> 0 \<and> dport t' \<noteq> 0 \<and>
      metadata t' =
        type OR (if is_ipv4_mapped_ipv6 c (saddr_h t6) (saddr_l t6) (daddr_h t6) (daddr_l t6)
                 then CONN_V4 c else CONN_V6 c)"
    proof (cases "is_ipv4_mapped_ipv6 c (saddr_h t6) (saddr_l t6) (daddr_h t6) (daddr_l t6)")
      case True
      with h have nz: "drop_bit 32 (saddr_l t6) \<noteq> 0" "drop_bit 32 (daddr_l t6) \<noteq> 0" by blast+
      have ra: "retrieve_addresses c ?t0 skp =
          (True, t6\<lparr>pid := ucast (drop_bit 32 pid_tgid), netns := sk_net_ns_inum skp,
                    metadata := type OR CONN_V4 c, saddr_h := 0, daddr_h := 0,
                    saddr_l := drop_bit 32 (saddr_l t6), daddr_l := drop_bit 32 (daddr_l t6)\<rparr>)"
        unfolding retrieve_addresses_v6 [OF f] t0 using h True by auto
      show ?thesis
        using h True nz unfolding read_conn_tuple_partial_eq ra
        by (simp add: read_sport_eq_0 bpf_ntohs_eq_0)
    next
      case False
      have ra: "retrieve_addresses c ?t0 skp =
          (True, t6\<lparr>pid := ucast (drop_bit 32 pid_tgid), netns := sk_net_ns_inum skp,
                    metadata := type OR CONN_V6 c\<rparr>)"
        unfolding retrieve_addresses_v6 [OF f] t0 using h False by auto
      show ?thesis
        using h False unfolding read_conn_tuple_partial_eq ra
        by (auto simp add: read_sport_eq_0 bpf_ntohs_eq_0)
    qed
  qed
  have f4: "fl4_saddr fl4 \<noteq> 0 \<and> fl4_daddr fl4 \<noteq> 0 \<and> fl4_sport fl4 \<noteq> 0 \<and> fl4_dport fl4 \<noteq> 0 \<and>
    type AND CONN_V4 c = CONN_V4 c \<and>
    u' = snd (read_conn_tuple_partial_from_flowi4 c t fl4 pid_tgid type) \<longrightarrow>
      fst (read_conn_tuple_partial_from_flowi4 c t fl4 pid_tgid type) = 1 \<and>
      saddr_l u' \<noteq> 0 \<and> daddr_l u' \<noteq> 0 \<and> sport u' \<noteq> 0 \<and> dport u' \<noteq> 0 \<and>
      metadata u' = type OR CONN_V4 c"
    by (auto simp add: read_conn_tuple_partial_from_flowi4_ok ucast_u32_u64_eq_0 bpf_ntohs_eq_0
        word_or_absorb)
  have f6: "read_in6_addr c (saddr_h t) (saddr_l t) (fl6_saddr fl6) = (sh, sl) \<and>
    read_in6_addr c (daddr_h t) (daddr_l t) (fl6_daddr fl6) = (dh, dl) \<and>
    (sh \<noteq> 0 \<or> sl \<noteq> 0) \<and> (dh \<noteq> 0 \<or> dl \<noteq> 0) \<and>
    (is_ipv4_mapped_ipv6 c sh sl dh dl \<longrightarrow> drop_bit 32 sl \<noteq> 0 \<and> drop_bit 32 dl \<noteq> 0) \<and>
    fl6_sport fl6 \<noteq> 0 \<and> fl6_dport fl6 \<noteq> 0 \<and>
    w' = snd (read_conn_tuple_partial_from_flowi6 c t fl6 pid_tgid type) \<longrightarrow>
      fst (read_conn_tuple_partial_from_flowi6 c t fl6 pid_tgid type) = 1 \<and>
      (saddr_h w' \<noteq> 0 \<or> saddr_l w' \<noteq> 0) \<and> (daddr_h w' \<noteq> 0 \<or> daddr_l w' \<noteq> 0) \<and>
      sport w' \<noteq> 0 \<and> dport w' \<noteq> 0 \<and>
      metadata w' =
        type OR (if is_ipv4_mapped_ipv6 c sh sl dh dl then CONN_V4 c else CONN_V6 c)"
  proof
    assume h: "read_in6_addr c (saddr_h t) (saddr_l t) (fl6_saddr fl6) = (sh, sl) \<and>
      read_in6_addr c (daddr_h t) (daddr_l t) (fl6_daddr fl6) = (dh, dl) \<and>
      (sh \<noteq> 0 \<or> sl \<noteq> 0) \<and> (dh \<noteq> 0 \<or> dl \<noteq> 0) \<and>
      (is_ipv4_mapped_ipv6 c sh sl dh dl \<longrightarrow> drop_bit 32 sl \<noteq> 0 \<and> drop_bit 32 dl \<noteq> 0) \<and>
      fl6_sport fl6 \<noteq> 0 \<and> fl6_dport fl6 \<noteq> 0 \<and>
      w' = snd (read_conn_tuple_partial_from_flowi6 c t fl6 pid_tgid type)"
    then have rs: "read_in6_addr c (saddr_h t) (saddr_l t) (fl6_saddr fl6) = (sh, sl)"
      and rd: "read_in6_addr c (daddr_h t) (daddr_l t) (fl6_daddr fl6) = (dh, dl)"
      and w: "w' = snd (read_conn_tuple_partial_from_flowi6 c t fl6 pid_tgid type)"
      and p: "fl6_sport fl6 \<noteq> 0" "fl6_dport fl6 \<noteq> 0"
      and a: "sh \<noteq> 0 \<or> sl \<noteq> 0" "dh \<noteq> 0 \<or> dl \<noteq> 0"
      by simp_all
    show "fst (read_conn_tuple_partial_from_flowi6 c t fl6 pid_tgid type) = 1 \<and>
      (saddr_h w' \<noteq> 0 \<or> saddr_l w' \<noteq> 0) \<and> (daddr_h w' \<noteq> 0 \<or> daddr_l w' \<noteq> 0) \<and>
      sport w' \<noteq> 0 \<and> dport w' \<noteq> 0 \<and>
      metadata w' =
        type OR (if is_ipv4_mapped_ipv6 c sh sl dh dl then CONN_V4 c else CONN_V6 c)"
    proof (cases "is_ipv4_mapped_ipv6 c sh sl dh dl")
      case True
      with h have nz: "drop_bit 32 sl \<noteq> 0" "drop_bit 32 dl \<noteq> 0" by blast+
      show ?thesis
        using True nz p a unfolding w
        by (simp add: read_conn_tuple_partial_from_flowi6_def Let_def rs rd narrow_drop
            bpf_ntohs_eq_0)
    next
      case False
      show ?thesis
        using False p a unfolding w
        by (auto simp add: read_conn_tuple_partial_from_flowi6_def Let_def rs rd bpf_ntohs_eq_0)
    qed
  qed
  from v4 v6 f4 f6 show ?thesis by (intro conjI)
qed

lemma example_sock6_reads:
  "saddr_h (read_v6_addrs conn_tuple_zero example_sock6) = 0xB80D0120"
  "saddr_l (read_v6_addrs conn_tuple_zero example_sock6) = 0x0100000000000000"
  "daddr_h (read_v6_addrs conn_tuple_zero example_sock6) = 0xB80D0120"
  "daddr_l (read_v6_addrs conn_tuple_zero example_sock6) = 0x0200000000000000"
  by (simp_all add: read_v6_addrs_fields conn_tuple_zero_def example_sock6_def)

theorem read_conn_tuple_resolved_witness:
  "fst (read_conn_tuple_partial example_defs conn_tuple_zero example_sock4 0x700000001 1) = 1 \<and>
   metadata (snd (read_conn_tuple_partial example_defs conn_tuple_zero example_sock4
      0x700000001 1)) = 1 \<and>
   fst (read_conn_tuple_partial example_defs conn_tuple_zero example_sock6 0x700000001 1) = 1 \<and>
   metadata (snd (read_conn_tuple_partial example_defs conn_tuple_zero example_sock6
      0x700000001 1)) = 3 \<and>
   fst (read_conn_tuple_partial example_defs conn_tuple_zero example_sock_mapped 0x700000001 1) = 1 \<and>
   metadata (snd (read_conn_tuple_partial example_defs conn_tuple_zero example_sock_mapped
      0x700000001 1)) = 1 \<and>
   fst (read_conn_tuple_partial_from_flowi4 example_defs conn_tuple_zero example_flowi4
      0x700000001 0) = 1 \<and>
   metadata (snd (read_conn_tuple_partial_from_flowi4 example_defs conn_tuple_zero example_flowi4
      0x700000001 0)) = 0 \<and>
   fst (read_conn_tuple_partial_from_flowi6 example_defs conn_tuple_zero example_flowi6_mapped
      0x700000001 0) = 1 \<and>
   metadata (snd (read_conn_tuple_partial_from_flowi6 example_defs conn_tuple_zero
      example_flowi6_mapped 0x700000001 0)) = 0"
proof -
  let ?t4 = "snd (read_conn_tuple_partial example_defs conn_tuple_zero example_sock4 0x700000001 1)"
  let ?t6 = "read_v6_addrs conn_tuple_zero example_sock6"
  let ?t' = "snd (read_conn_tuple_partial example_defs conn_tuple_zero example_sock6 0x700000001 1)"
  let ?m6 = "read_v6_addrs conn_tuple_zero example_sock_mapped"
  let ?m' = "snd (read_conn_tuple_partial example_defs conn_tuple_zero example_sock_mapped
      0x700000001 1)"
  let ?u' = "snd (read_conn_tuple_partial_from_flowi4 example_defs conn_tuple_zero example_flowi4
      0x700000001 0)"
  let ?w' = "snd (read_conn_tuple_partial_from_flowi6 example_defs conn_tuple_zero
      example_flowi6_mapped 0x700000001 0)"
  have masks: "CONN_V4 example_defs = 0" "CONN_V6 example_defs = 2"
    by (simp_all add: example_defs_def)
  have nm: "\<not> is_ipv4_mapped_ipv6 example_defs (saddr_h ?t6) (saddr_l ?t6) (daddr_h ?t6) (daddr_l ?t6)"
    unfolding example_sock6_reads by (simp add: example_defs_def)
  have mapped: "is_ipv4_mapped_ipv6 example_defs (saddr_h ?m6) (saddr_l ?m6) (daddr_h ?m6) (daddr_l ?m6)"
    unfolding example_mapped_reads by (simp add: example_defs_def)
  have mf: "is_ipv4_mapped_ipv6 example_defs 0 0x0100000AFFFF0000 0 0x0200000AFFFF0000"
    by (simp add: example_defs_def)
  have h1: "sk_family example_sock4 = AF_INET \<and>
      (saddr_l conn_tuple_zero \<noteq> 0 \<or> sk_rcv_saddr example_sock4 \<noteq> 0 \<or> inet_saddr example_sock4 \<noteq> 0) \<and>
      (daddr_l conn_tuple_zero \<noteq> 0 \<or> sk_daddr example_sock4 \<noteq> 0) \<and>
      (sport conn_tuple_zero \<noteq> 0 \<or> sk_num example_sock4 \<noteq> 0 \<or> inet_sport example_sock4 \<noteq> 0) \<and>
      (dport conn_tuple_zero \<noteq> 0 \<or> sk_dport example_sock4 \<noteq> 0) \<and>
      ?t4 = snd (read_conn_tuple_partial example_defs conn_tuple_zero example_sock4 0x700000001 1)"
    by (simp add: example_sock4_def AF_INET_def)
  have h2: "sk_family example_sock6 = AF_INET6 \<and> is_ipv6_enabled example_defs \<and>
      ?t6 = read_v6_addrs conn_tuple_zero example_sock6 \<and>
      (saddr_h ?t6 \<noteq> 0 \<or> saddr_l ?t6 \<noteq> 0) \<and> (daddr_h ?t6 \<noteq> 0 \<or> daddr_l ?t6 \<noteq> 0) \<and>
      (is_ipv4_mapped_ipv6 example_defs (saddr_h ?t6) (saddr_l ?t6) (daddr_h ?t6) (daddr_l ?t6) \<longrightarrow>
         drop_bit 32 (saddr_l ?t6) \<noteq> 0 \<and> drop_bit 32 (daddr_l ?t6) \<noteq> 0) \<and>
      (sport conn_tuple_zero \<noteq> 0 \<or> sk_num example_sock6 \<noteq> 0 \<or> inet_sport example_sock6 \<noteq> 0) \<and>
      (dport conn_tuple_zero \<noteq> 0 \<or> sk_dport example_sock6 \<noteq> 0) \<and>
      ?t' = snd (read_conn_tuple_partial example_defs conn_tuple_zero example_sock6 0x700000001 1)"
    using nm unfolding example_sock6_reads
    by (simp add: example_sock6_def AF_INET6_def is_ipv6_enabled_def example_defs_def)
  have h3: "sk_family example_sock_mapped = AF_INET6 \<and> is_ipv6_enabled example_defs \<and>
      ?m6 = read_v6_addrs conn_tuple_zero example_sock_mapped \<and>
      (saddr_h ?m6 \<noteq> 0 \<or> saddr_l ?m6 \<noteq> 0) \<and> (daddr_h ?m6 \<noteq> 0 \<or> daddr_l ?m6 \<noteq> 0) \<and>
      (is_ipv4_mapped_ipv6 example_defs (saddr_h ?m6) (saddr_l ?m6) (daddr_h ?m6) (daddr_l ?m6) \<longrightarrow>
         drop_bit 32 (saddr_l ?m6) \<noteq> 0 \<and> drop_bit 32 (daddr_l ?m6) \<noteq> 0) \<and>
      (sport conn_tuple_zero \<noteq> 0 \<or> sk_num example_sock_mapped \<noteq> 0 \<or>
         inet_sport example_sock_mapped \<noteq> 0) \<and>
      (dport conn_tuple_zero \<noteq> 0 \<or> sk_dport example_sock_mapped \<noteq> 0) \<and>
      ?m' = snd (read_conn_tuple_partial example_defs conn_tuple_zero example_sock_mapped
        0x700000001 1)"
    unfolding example_mapped_reads
    by (simp add: example_sock_mapped_def AF_INET6_def is_ipv6_enabled_def example_defs_def)
  have h4: "fl4_saddr example_flowi4 \<noteq> 0 \<and> fl4_daddr example_flowi4 \<noteq> 0 \<and>
      fl4_sport example_flowi4 \<noteq> 0 \<and> fl4_dport example_flowi4 \<noteq> 0 \<and>
      0 AND CONN_V4 example_defs = CONN_V4 example_defs \<and>
      ?u' = snd (read_conn_tuple_partial_from_flowi4 example_defs conn_tuple_zero example_flowi4
        0x700000001 0)"
    by (simp add: example_flowi4_def masks)
  have h5: "read_in6_addr example_defs (saddr_h conn_tuple_zero) (saddr_l conn_tuple_zero)
        (fl6_saddr example_flowi6_mapped) = (0, 0x0100000AFFFF0000) \<and>
      read_in6_addr example_defs (daddr_h conn_tuple_zero) (daddr_l conn_tuple_zero)
        (fl6_daddr example_flowi6_mapped) = (0, 0x0200000AFFFF0000) \<and>
      ((0::u64) \<noteq> 0 \<or> (0x0100000AFFFF0000::u64) \<noteq> 0) \<and>
      ((0::u64) \<noteq> 0 \<or> (0x0200000AFFFF0000::u64) \<noteq> 0) \<and>
      (is_ipv4_mapped_ipv6 example_defs 0 0x0100000AFFFF0000 0 0x0200000AFFFF0000 \<longrightarrow>
         drop_bit 32 (0x0100000AFFFF0000::u64) \<noteq> 0 \<and> drop_bit 32 (0x0200000AFFFF0000::u64) \<noteq> 0) \<and>
      fl6_sport example_flowi6_mapped \<noteq> 0 \<and> fl6_dport example_flowi6_mapped \<noteq> 0 \<and>
      ?w' = snd (read_conn_tuple_partial_from_flowi6 example_defs conn_tuple_zero
        example_flowi6_mapped 0x700000001 0)"
    by (simp add: example_defs_def example_flowi6_mapped_def example_sock_mapped_def)
  note v4 = read_conn_tuple_resolved [where skp = example_sock4 and t = conn_tuple_zero
      and c = example_defs and t' = ?t4 and pid_tgid = "0x700000001" and type = 1,
      THEN conjunct1, THEN mp, OF h1]
  note v6 = read_conn_tuple_resolved [where skp = example_sock6 and t = conn_tuple_zero
      and c = example_defs and ?t6.0 = ?t6 and t' = ?t' and pid_tgid = "0x700000001" and type = 1,
      THEN conjunct2, THEN conjunct1, THEN mp, OF h2]
  note m6 = read_conn_tuple_resolved [where skp = example_sock_mapped and t = conn_tuple_zero
      and c = example_defs and ?t6.0 = ?m6 and t' = ?m' and pid_tgid = "0x700000001" and type = 1,
      THEN conjunct2, THEN conjunct1, THEN mp, OF h3]
  note f4 = read_conn_tuple_resolved [where ?fl4.0 = example_flowi4 and t = conn_tuple_zero
      and c = example_defs and u' = ?u' and pid_tgid = "0x700000001" and type = 0,
      THEN conjunct2, THEN conjunct2, THEN conjunct1, THEN mp, OF h4]
  note f6 = read_conn_tuple_resolved [where ?fl6.0 = example_flowi6_mapped and t = conn_tuple_zero
      and c = example_defs and sh = 0 and sl = "0x0100000AFFFF0000" and dh = 0
      and dl = "0x0200000AFFFF0000" and w' = ?w' and pid_tgid = "0x700000001" and type = 0,
      THEN conjunct2, THEN conjunct2, THEN conjunct2, THEN mp, OF h5]
  show ?thesis
    using v4 v6 m6 f4 f6 nm mapped mf by (simp add: masks)
qed

text \<open>
  The IPv6 socket between \<open>2001:db8::1\<close> and \<open>2001:db8::2\<close>, all addresses and ports
  nonzero, with IPv6 inspection disabled: extraction returns 0 and no address or port is
  filled. Two further inputs show what the statement above conditions on. With a
  nonzero \<open>CONN_V4\<close> mask and a type that does not carry it, extraction from the IPv4
  route descriptor succeeds and leaves the mask unset. From an IPv6 socket whose source
  is \<open>::ffff:0.0.0.0\<close>, a nonzero address with a zero embedded IPv4 address, extraction
  succeeds and leaves the source address of the tuple zero.
\<close>

theorem read_conn_tuple_ipv6_disabled_counterexample:
  "fst (read_conn_tuple_partial (example_defs\<lparr>ipv6_enabled := 0\<rparr>) conn_tuple_zero example_sock6
      0x700000001 1) = 0 \<and>
   snd (read_conn_tuple_partial (example_defs\<lparr>ipv6_enabled := 0\<rparr>) conn_tuple_zero example_sock6
      0x700000001 1) = conn_tuple_zero\<lparr>pid := 7, metadata := 1, netns := 4026531840\<rparr> \<and>
   fst (read_conn_tuple_partial_from_flowi4 (example_defs\<lparr>CONN_V4 := 4\<rparr>) conn_tuple_zero
      example_flowi4 0x700000001 0) = 1 \<and>
   metadata (snd (read_conn_tuple_partial_from_flowi4 (example_defs\<lparr>CONN_V4 := 4\<rparr>) conn_tuple_zero
      example_flowi4 0x700000001 0)) AND 4 = 0 \<and>
   fst (read_conn_tuple_partial example_defs conn_tuple_zero
      (example_sock_mapped\<lparr>sk_v6_rcv_saddr :=
         \<lparr>s6_addr32_0 = 0, s6_addr32_1 = 0, s6_addr32_2 = 0xFFFF0000, s6_addr32_3 = 0\<rparr>\<rparr>)
      0x700000001 1) = 1 \<and>
   saddr_h (snd (read_conn_tuple_partial example_defs conn_tuple_zero
      (example_sock_mapped\<lparr>sk_v6_rcv_saddr :=
         \<lparr>s6_addr32_0 = 0, s6_addr32_1 = 0, s6_addr32_2 = 0xFFFF0000, s6_addr32_3 = 0\<rparr>\<rparr>)
      0x700000001 1)) = 0 \<and>
   saddr_l (snd (read_conn_tuple_partial example_defs conn_tuple_zero
      (example_sock_mapped\<lparr>sk_v6_rcv_saddr :=
         \<lparr>s6_addr32_0 = 0, s6_addr32_1 = 0, s6_addr32_2 = 0xFFFF0000, s6_addr32_3 = 0\<rparr>\<rparr>)
      0x700000001 1)) = 0"
proof -
  have a: "read_conn_tuple_partial (example_defs\<lparr>ipv6_enabled := 0\<rparr>) conn_tuple_zero example_sock6
      0x700000001 1 = (0, conn_tuple_zero\<lparr>pid := 7, metadata := 1, netns := 4026531840\<rparr>)"
    by (simp add: read_conn_tuple_partial_def retrieve_addresses_def check_family_def
        get_netns_from_sock_def is_ipv6_enabled_def example_defs_def example_sock6_def
        conn_tuple_zero_def AF_INET_def AF_INET6_def)
  have b: "read_conn_tuple_partial_from_flowi4 (example_defs\<lparr>CONN_V4 := 4\<rparr>) conn_tuple_zero
      example_flowi4 0x700000001 0 =
      (1, conn_tuple_zero\<lparr>pid := 7, metadata := 0, saddr_l := 0x0100000A, daddr_l := 0x0200000A,
            sport := 40000, dport := 9092\<rparr>)"
    by (simp add: read_conn_tuple_partial_from_flowi4_def Let_def bpf_ntohs_def example_flowi4_def
        conn_tuple_zero_def)
  have c: "read_conn_tuple_partial example_defs conn_tuple_zero
      (example_sock_mapped\<lparr>sk_v6_rcv_saddr :=
         \<lparr>s6_addr32_0 = 0, s6_addr32_1 = 0, s6_addr32_2 = 0xFFFF0000, s6_addr32_3 = 0\<rparr>\<rparr>)
      0x700000001 1 =
      (1, \<lparr>saddr_h = 0, saddr_l = 0, daddr_h = 0, daddr_l = 0x0200000A, sport = 40000,
           dport = 9092, netns = 4026531840, pid = 7, metadata = 1\<rparr>)"
    by (simp add: read_conn_tuple_partial_def retrieve_addresses_def read_v6_addrs_def
        check_family_def get_netns_from_sock_def is_ipv6_enabled_def read_sport_def bpf_ntohs_def
        store_u32_0_def store_u32_1_def example_defs_def example_sock_mapped_def
        conn_tuple_zero_def AF_INET_def AF_INET6_def Let_def)
  show ?thesis unfolding a b c by simp
qed

subsection \<open>Fields set on entry\<close>

lemma read_conn_tuple_partial_from_flowi4_addrs:
  "saddr_l (snd (read_conn_tuple_partial_from_flowi4 c t fl4 pid_tgid type)) = ucast (fl4_saddr fl4)"
  "daddr_l (snd (read_conn_tuple_partial_from_flowi4 c t fl4 pid_tgid type)) = ucast (fl4_daddr fl4)"
  by (simp_all add: read_conn_tuple_partial_from_flowi4_def Let_def)

text \<open>
  C9, as the code has it. Extraction from a socket keeps a port that is nonzero on entry.
  On an IPv4 socket it keeps an address whose lower half is nonzero on entry. On any
  other socket it keeps an address that is nonzero on entry unless the pair is recognized
  as IPv4-mapped, in which case the address is rewritten to its IPv4 form. Extraction
  from an IPv4 route descriptor does not merge: it stores the addresses of the
  descriptor whatever the tuple held, and on success the ports are the descriptor's, in
  host byte order.
\<close>

theorem read_conn_tuple_partial_merge:
  "(t' = snd (read_conn_tuple_partial c t skp pid_tgid type) \<and> sport t \<noteq> 0 \<longrightarrow>
      sport t' = sport t) \<and>
   (t' = snd (read_conn_tuple_partial c t skp pid_tgid type) \<and> dport t \<noteq> 0 \<longrightarrow>
      dport t' = dport t) \<and>
   (t' = snd (read_conn_tuple_partial c t skp pid_tgid type) \<and>
    sk_family skp = AF_INET \<and> saddr_l t \<noteq> 0 \<longrightarrow>
      saddr_h t' = saddr_h t \<and> saddr_l t' = saddr_l t) \<and>
   (t' = snd (read_conn_tuple_partial c t skp pid_tgid type) \<and>
    sk_family skp = AF_INET \<and> daddr_l t \<noteq> 0 \<longrightarrow>
      daddr_h t' = daddr_h t \<and> daddr_l t' = daddr_l t) \<and>
   (t' = snd (read_conn_tuple_partial c t skp pid_tgid type) \<and> t6 = read_v6_addrs t skp \<and>
    sk_family skp \<noteq> AF_INET \<and> (saddr_h t \<noteq> 0 \<or> saddr_l t \<noteq> 0) \<and>
    \<not> is_ipv4_mapped_ipv6 c (saddr_h t6) (saddr_l t6) (daddr_h t6) (daddr_l t6) \<longrightarrow>
      saddr_h t' = saddr_h t \<and> saddr_l t' = saddr_l t) \<and>
   (t' = snd (read_conn_tuple_partial c t skp pid_tgid type) \<and> t6 = read_v6_addrs t skp \<and>
    sk_family skp \<noteq> AF_INET \<and> (daddr_h t \<noteq> 0 \<or> daddr_l t \<noteq> 0) \<and>
    \<not> is_ipv4_mapped_ipv6 c (saddr_h t6) (saddr_l t6) (daddr_h t6) (daddr_l t6) \<longrightarrow>
      daddr_h t' = daddr_h t \<and> daddr_l t' = daddr_l t) \<and>
   saddr_l (snd (read_conn_tuple_partial_from_flowi4 c t fl4 pid_tgid type)) =
     ucast (fl4_saddr fl4) \<and>
   daddr_l (snd (read_conn_tuple_partial_from_flowi4 c t fl4 pid_tgid type)) =
     ucast (fl4_daddr fl4) \<and>
   (fl4_saddr fl4 \<noteq> 0 \<and> fl4_daddr fl4 \<noteq> 0 \<and> fl4_sport fl4 \<noteq> 0 \<and> fl4_dport fl4 \<noteq> 0 \<longrightarrow>
      sport (snd (read_conn_tuple_partial_from_flowi4 c t fl4 pid_tgid type)) =
        bpf_ntohs (fl4_sport fl4) \<and>
      dport (snd (read_conn_tuple_partial_from_flowi4 c t fl4 pid_tgid type)) =
        bpf_ntohs (fl4_dport fl4))"
proof -
  let ?t0 = "t\<lparr>pid := ucast (drop_bit 32 pid_tgid), metadata := type, netns := sk_net_ns_inum skp\<rparr>"
  let ?r = "snd (read_conn_tuple_partial c t skp pid_tgid type)"
  obtain ok ta where ra: "retrieve_addresses c ?t0 skp = (ok, ta)"
    by (cases "retrieve_addresses c ?t0 skp")
  have ports: "sport t \<noteq> 0 \<longrightarrow> sport ?r = sport t" "dport t \<noteq> 0 \<longrightarrow> dport ?r = dport t"
    using retrieve_addresses_ports [of c ?t0 skp] ra
    unfolding read_conn_tuple_partial_eq by (cases ok; simp)+
  have addrs: "saddr_h ?r = saddr_h ta" "saddr_l ?r = saddr_l ta"
    "daddr_h ?r = daddr_h ta" "daddr_l ?r = daddr_l ta"
    using ra unfolding read_conn_tuple_partial_eq by (cases ok; simp)+
  have v4: "sk_family skp = AF_INET \<Longrightarrow> saddr_h ta = saddr_h t \<and> daddr_h ta = daddr_h t \<and>
      (saddr_l t \<noteq> 0 \<longrightarrow> saddr_l ta = saddr_l t) \<and> (daddr_l t \<noteq> 0 \<longrightarrow> daddr_l ta = daddr_l t)"
    using ra by (auto simp add: retrieve_addresses_v4)
  have nv4: "sk_family skp \<noteq> AF_INET \<Longrightarrow>
      \<not> is_ipv4_mapped_ipv6 c (saddr_h (read_v6_addrs t skp)) (saddr_l (read_v6_addrs t skp))
           (daddr_h (read_v6_addrs t skp)) (daddr_l (read_v6_addrs t skp)) \<Longrightarrow>
      ((saddr_h t \<noteq> 0 \<or> saddr_l t \<noteq> 0) \<longrightarrow> saddr_h ta = saddr_h t \<and> saddr_l ta = saddr_l t) \<and>
      ((daddr_h t \<noteq> 0 \<or> daddr_l t \<noteq> 0) \<longrightarrow> daddr_h ta = daddr_h t \<and> daddr_l ta = daddr_l t)"
  proof -
    assume ne: "sk_family skp \<noteq> AF_INET"
      and nm: "\<not> is_ipv4_mapped_ipv6 c (saddr_h (read_v6_addrs t skp)) (saddr_l (read_v6_addrs t skp))
           (daddr_h (read_v6_addrs t skp)) (daddr_l (read_v6_addrs t skp))"
    show ?thesis
    proof (cases "sk_family skp = AF_INET6 \<and> is_ipv6_enabled c")
      case True
      then have v6: "sk_family skp = AF_INET6" "is_ipv6_enabled c" by simp_all
      have "saddr_h ta = saddr_h (read_v6_addrs t skp) \<and> saddr_l ta = saddr_l (read_v6_addrs t skp) \<and>
          daddr_h ta = daddr_h (read_v6_addrs t skp) \<and> daddr_l ta = daddr_l (read_v6_addrs t skp)"
        using ra nm unfolding retrieve_addresses_v6 [OF v6] read_v6_addrs_upd
        by (auto split: if_splits)
      then show ?thesis by (auto simp add: read_v6_addrs_fields)
    next
      case False
      with ne have "retrieve_addresses c ?t0 skp = (False, ?t0)"
        by (intro retrieve_addresses_other) auto
      with ra have "ta = ?t0" by simp
      then show ?thesis by simp
    qed
  qed
  have fl4_ports: "fl4_saddr fl4 \<noteq> 0 \<and> fl4_daddr fl4 \<noteq> 0 \<and> fl4_sport fl4 \<noteq> 0 \<and> fl4_dport fl4 \<noteq> 0 \<longrightarrow>
      sport (snd (read_conn_tuple_partial_from_flowi4 c t fl4 pid_tgid type)) =
        bpf_ntohs (fl4_sport fl4) \<and>
      dport (snd (read_conn_tuple_partial_from_flowi4 c t fl4 pid_tgid type)) =
        bpf_ntohs (fl4_dport fl4)"
    by (simp add: read_conn_tuple_partial_from_flowi4_ok)
  show ?thesis
    using ports addrs v4 nv4 read_conn_tuple_partial_from_flowi4_addrs [of c t fl4 pid_tgid type]
    by (intro conjI fl4_ports) auto
qed


lemma example_preset6_reads:
  "saddr_h (read_v6_addrs example_preset6 example_sock6) = 1"
  "saddr_l (read_v6_addrs example_preset6 example_sock6) = 0"
  "daddr_h (read_v6_addrs example_preset6 example_sock6) = 2"
  "daddr_l (read_v6_addrs example_preset6 example_sock6) = 0"
  by (simp_all add: read_v6_addrs_fields example_preset6_def conn_tuple_zero_def)

theorem read_conn_tuple_partial_merge_witness:
  "sport (snd (read_conn_tuple_partial example_defs example_preset example_sock4 0x700000001 1)) = 1234 \<and>
   dport (snd (read_conn_tuple_partial example_defs example_preset example_sock4 0x700000001 1)) = 80 \<and>
   saddr_l (snd (read_conn_tuple_partial example_defs example_preset example_sock4 0x700000001 1)) =
     0x0500000A \<and>
   daddr_l (snd (read_conn_tuple_partial example_defs example_preset example_sock4 0x700000001 1)) =
     0x0600000A \<and>
   saddr_h (snd (read_conn_tuple_partial example_defs example_preset6 example_sock6 0x700000001 1)) = 1 \<and>
   saddr_l (snd (read_conn_tuple_partial example_defs example_preset6 example_sock6 0x700000001 1)) = 0 \<and>
   daddr_h (snd (read_conn_tuple_partial example_defs example_preset6 example_sock6 0x700000001 1)) = 2 \<and>
   daddr_l (snd (read_conn_tuple_partial example_defs example_preset6 example_sock6 0x700000001 1)) = 0 \<and>
   sport (snd (read_conn_tuple_partial_from_flowi4 example_defs example_preset example_flowi4
      0x700000001 0)) = 40000 \<and>
   dport (snd (read_conn_tuple_partial_from_flowi4 example_defs example_preset example_flowi4
      0x700000001 0)) = 9092"
proof -
  let ?a = "snd (read_conn_tuple_partial example_defs example_preset example_sock4 0x700000001 1)"
  let ?b = "snd (read_conn_tuple_partial example_defs example_preset6 example_sock6 0x700000001 1)"
  let ?t6 = "read_v6_addrs example_preset6 example_sock6"
  have p: "sport example_preset = 1234" "dport example_preset = 80"
    "saddr_l example_preset = 0x0500000A" "daddr_l example_preset = 0x0600000A"
    by (simp_all add: example_preset_def conn_tuple_zero_def)
  have p6: "saddr_h example_preset6 = 1" "saddr_l example_preset6 = 0"
    "daddr_h example_preset6 = 2" "daddr_l example_preset6 = 0"
    by (simp_all add: example_preset6_def conn_tuple_zero_def)
  have f4: "sk_family example_sock4 = AF_INET" by (simp add: example_sock4_def AF_INET_def)
  have f6: "sk_family example_sock6 \<noteq> AF_INET" by (simp add: example_sock6_def AF_INET_def)
  have nm: "\<not> is_ipv4_mapped_ipv6 example_defs (saddr_h ?t6) (saddr_l ?t6) (daddr_h ?t6) (daddr_l ?t6)"
    unfolding example_preset6_reads by (simp add: example_defs_def)
  have h1: "?a = snd (read_conn_tuple_partial example_defs example_preset example_sock4 0x700000001 1) \<and>
      sport example_preset \<noteq> 0"
    by (simp add: p)
  have h2: "?a = snd (read_conn_tuple_partial example_defs example_preset example_sock4 0x700000001 1) \<and>
      dport example_preset \<noteq> 0"
    by (simp add: p)
  have h3: "?a = snd (read_conn_tuple_partial example_defs example_preset example_sock4 0x700000001 1) \<and>
      sk_family example_sock4 = AF_INET \<and> saddr_l example_preset \<noteq> 0"
    by (simp add: p f4)
  have h4: "?a = snd (read_conn_tuple_partial example_defs example_preset example_sock4 0x700000001 1) \<and>
      sk_family example_sock4 = AF_INET \<and> daddr_l example_preset \<noteq> 0"
    by (simp add: p f4)
  have h5: "?b = snd (read_conn_tuple_partial example_defs example_preset6 example_sock6 0x700000001 1) \<and>
      ?t6 = read_v6_addrs example_preset6 example_sock6 \<and> sk_family example_sock6 \<noteq> AF_INET \<and>
      (saddr_h example_preset6 \<noteq> 0 \<or> saddr_l example_preset6 \<noteq> 0) \<and>
      \<not> is_ipv4_mapped_ipv6 example_defs (saddr_h ?t6) (saddr_l ?t6) (daddr_h ?t6) (daddr_l ?t6)"
    using nm f6 by (simp add: p6)
  have h6: "?b = snd (read_conn_tuple_partial example_defs example_preset6 example_sock6 0x700000001 1) \<and>
      ?t6 = read_v6_addrs example_preset6 example_sock6 \<and> sk_family example_sock6 \<noteq> AF_INET \<and>
      (daddr_h example_preset6 \<noteq> 0 \<or> daddr_l example_preset6 \<noteq> 0) \<and>
      \<not> is_ipv4_mapped_ipv6 example_defs (saddr_h ?t6) (saddr_l ?t6) (daddr_h ?t6) (daddr_l ?t6)"
    using nm f6 by (simp add: p6)
  note m4 = read_conn_tuple_partial_merge [where t' = ?a and c = example_defs and t = example_preset
      and skp = example_sock4 and pid_tgid = "0x700000001" and type = 1]
  note m6 = read_conn_tuple_partial_merge [where t' = ?b and c = example_defs and t = example_preset6
      and skp = example_sock6 and pid_tgid = "0x700000001" and type = 1 and ?t6.0 = ?t6]
  note c1 = m4 [THEN conjunct1, THEN mp, OF h1]
  note c2 = m4 [THEN conjunct2, THEN conjunct1, THEN mp, OF h2]
  note c3 = m4 [THEN conjunct2, THEN conjunct2, THEN conjunct1, THEN mp, OF h3]
  note c4 = m4 [THEN conjunct2, THEN conjunct2, THEN conjunct2, THEN conjunct1, THEN mp, OF h4]
  note c5 = m6 [THEN conjunct2, THEN conjunct2, THEN conjunct2, THEN conjunct2, THEN conjunct1,
      THEN mp, OF h5]
  note c6 = m6 [THEN conjunct2, THEN conjunct2, THEN conjunct2, THEN conjunct2, THEN conjunct2,
      THEN conjunct1, THEN mp, OF h6]
  have h7: "fl4_saddr example_flowi4 \<noteq> 0 \<and> fl4_daddr example_flowi4 \<noteq> 0 \<and>
      fl4_sport example_flowi4 \<noteq> 0 \<and> fl4_dport example_flowi4 \<noteq> 0"
    by (simp add: example_flowi4_def)
  note c7 = read_conn_tuple_partial_merge [where c = example_defs and t = example_preset
      and ?fl4.0 = example_flowi4 and pid_tgid = "0x700000001" and type = 0,
      THEN conjunct2, THEN conjunct2, THEN conjunct2, THEN conjunct2, THEN conjunct2,
      THEN conjunct2, THEN conjunct2, THEN conjunct2, THEN mp, OF h7]
  have swap: "bpf_ntohs (fl4_sport example_flowi4) = 40000" "bpf_ntohs (fl4_dport example_flowi4) = 9092"
    by (simp_all add: bpf_ntohs_def example_flowi4_def)
  show ?thesis
    using c1 c2 c3 c4 c5 c6 c7 by (simp add: p p6 swap)
qed

text \<open>
  A tuple that enters with source address \<open>0x0500000A\<close> and source port 1234 leaves
  extraction from the route descriptor with the descriptor's address and port.
\<close>

theorem read_conn_tuple_partial_from_flowi4_overwrites_counterexample:
  "saddr_l example_preset = 0x0500000A \<and>
   saddr_l (snd (read_conn_tuple_partial_from_flowi4 example_defs example_preset example_flowi4
      0x700000001 0)) = 0x0100000A \<and>
   sport example_preset = 1234 \<and>
   sport (snd (read_conn_tuple_partial_from_flowi4 example_defs example_preset example_flowi4
      0x700000001 0)) = 40000"
  by (simp add: read_conn_tuple_partial_from_flowi4_def Let_def bpf_ntohs_def example_preset_def
      conn_tuple_zero_def example_flowi4_def)

end
